theory Spec2Isabelle
  imports Main
begin

section \<open>The nerovaagent command-line front end\<close>

text \<open>
  A shallow embedding of \<^verbatim>\<open>packages/nerovaagent/bin/nerovaagent.js\<close>: the option
  parser \<^verbatim>\<open>parseArgs\<close>, the run-result renderer \<^verbatim>\<open>renderRunResult\<close>,
  the daemon gate \<^verbatim>\<open>requireAgentDaemon\<close> and the two work-submitting handlers
  \<^verbatim>\<open>handleStart\<close> and \<^verbatim>\<open>handlePlaywrightLaunch\<close>.

  Strings are sequences of code units below 256 (Isabelle's \<open>char\<close>).
\<close>

subsection \<open>Option parsing\<close>

text \<open>
  The object \<^verbatim>\<open>out\<close> built by \<^verbatim>\<open>parseArgs\<close>. The property \<^verbatim>\<open>_\<close> is the field
  \<open>positional\<close>, the property \<^verbatim>\<open>context\<close> is the field \<open>contextNotes\<close>; a
  property that was never assigned is \<open>None\<close>.
\<close>

record parsed_options =
  positional :: "string list"
  promptFile :: "string option"
  prompt :: "string option"
  contextNotes :: "string option"
  contextFile :: "string option"
  criticKey :: "string option"
  assistantKey :: "string option"
  assistantId :: "string option"

definition empty_options :: parsed_options where
  "empty_options =
     \<lparr>positional = [], promptFile = None, prompt = None, contextNotes = None,
      contextFile = None, criticKey = None, assistantKey = None, assistantId = None\<rparr>"

text \<open>
  \<^verbatim>\<open>argv[i]\<close>: reading past the end of a JavaScript array yields \<^verbatim>\<open>undefined\<close>,
  here \<open>None\<close>.
\<close>

definition at_index :: "'a list \<Rightarrow> nat \<Rightarrow> 'a option" where
  "at_index xs i = (if i < length xs then Some (xs ! i) else None)"

text \<open>
  Truthiness of a value that is a string or \<^verbatim>\<open>undefined\<close>: only a non-empty string
  is truthy.
\<close>

fun truthy_str :: "string option \<Rightarrow> bool" where
  "truthy_str None = False"
| "truthy_str (Some s) = (s \<noteq> [])"

text \<open>
  The \<^verbatim>\<open>for\<close> loop of \<^verbatim>\<open>parseArgs\<close>, with the index \<open>i\<close> and the object
  \<open>out\<close> as loop state. \<^verbatim>\<open>consume()\<close> adds one to \<open>i\<close> and the loop header adds
  another, so a consumed pair continues at \<open>i + 2\<close>.
\<close>

function parse_loop :: "string list \<Rightarrow> nat \<Rightarrow> parsed_options \<Rightarrow> parsed_options" where
  "parse_loop argv i out =
     (if i < length argv then
        (let token = argv ! i; next = at_index argv (i + 1) in
         if token = ''--prompt-file'' \<and> truthy_str next then
           parse_loop argv (i + 2) (out\<lparr>promptFile := next\<rparr>)
         else if token = ''--prompt'' \<and> truthy_str next then
           parse_loop argv (i + 2) (out\<lparr>prompt := next\<rparr>)
         else if token = ''--context'' \<and> truthy_str next then
           parse_loop argv (i + 2) (out\<lparr>contextNotes := next\<rparr>)
         else if token = ''--context-file'' \<and> truthy_str next then
           parse_loop argv (i + 2) (out\<lparr>contextFile := next\<rparr>)
         else if token = ''--critic-key'' \<and> truthy_str next then
           parse_loop argv (i + 2) (out\<lparr>criticKey := next\<rparr>)
         else if token = ''--assistant-key'' \<and> truthy_str next then
           parse_loop argv (i + 2) (out\<lparr>assistantKey := next\<rparr>)
         else if token = ''--assistant-id'' \<and> truthy_str next then
           parse_loop argv (i + 2) (out\<lparr>assistantId := next\<rparr>)
         else parse_loop argv (i + 1) (out\<lparr>positional := positional out @ [token]\<rparr>))
      else out)"
  by pat_completeness auto
termination
  by (relation "measure (\<lambda>(argv, i, out). length argv - i)") auto

definition parseArgs :: "string list \<Rightarrow> parsed_options" where
  "parseArgs argv = parse_loop argv 0 empty_options"

text \<open>The flags the loop tests for, and the property each one assigns.\<close>

definition recognized_flags :: "string list" where
  "recognized_flags =
     [''--prompt-file'', ''--prompt'', ''--context'', ''--context-file'',
      ''--critic-key'', ''--assistant-key'', ''--assistant-id'']"

definition store_flag :: "string \<Rightarrow> string \<Rightarrow> parsed_options \<Rightarrow> parsed_options" where
  "store_flag flag v out =
     (if flag = ''--prompt-file'' then out\<lparr>promptFile := Some v\<rparr>
      else if flag = ''--prompt'' then out\<lparr>prompt := Some v\<rparr>
      else if flag = ''--context'' then out\<lparr>contextNotes := Some v\<rparr>
      else if flag = ''--context-file'' then out\<lparr>contextFile := Some v\<rparr>
      else if flag = ''--critic-key'' then out\<lparr>criticKey := Some v\<rparr>
      else if flag = ''--assistant-key'' then out\<lparr>assistantKey := Some v\<rparr>
      else if flag = ''--assistant-id'' then out\<lparr>assistantId := Some v\<rparr>
      else out)"

definition push_positional :: "string \<Rightarrow> parsed_options \<Rightarrow> parsed_options" where
  "push_positional token out = out\<lparr>positional := positional out @ [token]\<rparr>"

declare parse_loop.simps [simp del]

subsection \<open>JavaScript values\<close>

text \<open>
  The values a run payload can hold. Numbers are the integers that a double holds
  exactly and prints digit by digit (magnitude below \<^verbatim>\<open>2**53\<close>); fractions,
  \<^verbatim>\<open>NaN\<close> and infinities are left out. An object is the list of its own properties
  in enumeration order, with distinct keys, and an array is the list of its elements.
\<close>

datatype jsval =
    JUndef
  | JNull
  | JBool bool
  | JNum int
  | JStr string
  | JArr "jsval list"
  | JObj "(string \<times> jsval) list"

fun truthy :: "jsval \<Rightarrow> bool" where
  "truthy JUndef = False"
| "truthy JNull = False"
| "truthy (JBool b) = b"
| "truthy (JNum n) = (n \<noteq> 0)"
| "truthy (JStr s) = (s \<noteq> [])"
| "truthy (JArr xs) = True"
| "truthy (JObj kvs) = True"

fun typeof :: "jsval \<Rightarrow> string" where
  "typeof JUndef = ''undefined''"
| "typeof JNull = ''object''"
| "typeof (JBool b) = ''boolean''"
| "typeof (JNum n) = ''number''"
| "typeof (JStr s) = ''string''"
| "typeof (JArr xs) = ''object''"
| "typeof (JObj kvs) = ''object''"

fun nullish :: "jsval \<Rightarrow> bool" where
  "nullish JUndef = True"
| "nullish JNull = True"
| "nullish v = False"

text \<open>
  Property read \<^verbatim>\<open>v.k\<close> on a value that is neither \<^verbatim>\<open>null\<close> nor \<^verbatim>\<open>undefined\<close>,
  for the property names the program reads (none of them is an own or inherited property of
  an array, a string, a number or a boolean, nor inherited by a plain object): an own
  property of an object, \<^verbatim>\<open>undefined\<close> otherwise. The one read whose receiver can be
  \<^verbatim>\<open>null\<close> or \<^verbatim>\<open>undefined\<close>, \<^verbatim>\<open>entry.iteration\<close>, is guarded where it is
  modelled.
\<close>

fun field :: "jsval \<Rightarrow> string \<Rightarrow> jsval" where
  "field (JObj kvs) k = (case map_of kvs k of None \<Rightarrow> JUndef | Some v \<Rightarrow> v)"
| "field v k = JUndef"

text \<open>\<^verbatim>\<open>a || b\<close>, \<^verbatim>\<open>a && b\<close>, \<^verbatim>\<open>a ?? b\<close> and \<^verbatim>\<open>a?.k\<close>.\<close>

definition js_or :: "jsval \<Rightarrow> jsval \<Rightarrow> jsval" where
  "js_or a b = (if truthy a then a else b)"

definition js_and :: "jsval \<Rightarrow> jsval \<Rightarrow> jsval" where
  "js_and a b = (if truthy a then b else a)"

definition js_coalesce :: "jsval \<Rightarrow> jsval \<Rightarrow> jsval" where
  "js_coalesce a b = (if nullish a then b else a)"

definition opt_field :: "jsval \<Rightarrow> string \<Rightarrow> jsval" where
  "opt_field v k = (if nullish v then JUndef else field v k)"

subsection \<open>Conversion to strings\<close>

definition digit_char :: "nat \<Rightarrow> char" where
  "digit_char n = ''0123456789abcdef'' ! n"

function show_nat :: "nat \<Rightarrow> string" where
  "show_nat n = (if n < 10 then [digit_char n] else show_nat (n div 10) @ [digit_char (n mod 10)])"
  by pat_completeness auto
termination
  by (relation "measure id") auto

declare show_nat.simps [simp del]

definition show_int :: "int \<Rightarrow> string" where
  "show_int i = (if i < 0 then CHR ''-'' # show_nat (nat (- i)) else show_nat (nat i))"

fun join :: "string \<Rightarrow> string list \<Rightarrow> string" where
  "join sep [] = []"
| "join sep [x] = x"
| "join sep (x # y # ys) = x @ sep @ join sep (y # ys)"

text \<open>
  \<^verbatim>\<open>ToString\<close>, as a template literal and \<^verbatim>\<open>Array.prototype.join\<close> apply it.
  \<open>None\<close> is the \<^verbatim>\<open>TypeError\<close> raised for an object that cannot be converted to a
  primitive: an own property \<^verbatim>\<open>toString\<close> of a payload object is data, not a function,
  so it hides \<^verbatim>\<open>Object.prototype.toString\<close>, and \<^verbatim>\<open>valueOf\<close> returns the object
  itself. An array is converted by joining its elements with a comma, where \<^verbatim>\<open>null\<close>
  and \<^verbatim>\<open>undefined\<close> elements give the empty string.
\<close>

fun to_string :: "jsval \<Rightarrow> string option" where
  "to_string JUndef = Some ''undefined''"
| "to_string JNull = Some ''null''"
| "to_string (JBool b) = Some (if b then ''true'' else ''false'')"
| "to_string (JNum n) = Some (show_int n)"
| "to_string (JStr s) = Some s"
| "to_string (JArr xs) =
     map_option (join '','')
       (those (map (\<lambda>x. if nullish x then Some [] else to_string x) xs))"
| "to_string (JObj kvs) =
     (if ''toString'' \<in> set (map fst kvs) then None else Some ''[object Object]'')"

text \<open>\<^verbatim>\<open>xs.join(sep)\<close> on an array \<open>xs\<close>.\<close>

definition array_join :: "string \<Rightarrow> jsval list \<Rightarrow> string option" where
  "array_join sep xs =
     map_option (join sep)
       (those (map (\<lambda>x. if nullish x then Some [] else to_string x) xs))"

text \<open>A template literal: the pieces are converted left to right and concatenated.\<close>

definition tmpl :: "string option list \<Rightarrow> string option" where
  "tmpl pieces = map_option concat (those pieces)"

text \<open>
  \<^verbatim>\<open>JSON.stringify\<close>; \<open>None\<close> is the result \<^verbatim>\<open>undefined\<close>. A property whose value
  serializes to \<^verbatim>\<open>undefined\<close> is left out of an object and is \<^verbatim>\<open>null\<close> in an array.
\<close>

definition json_escape :: "char \<Rightarrow> string" where
  "json_escape c =
     (if c = CHR 0x22 then [CHR 0x5C, CHR 0x22]
      else if c = CHR 0x5C then [CHR 0x5C, CHR 0x5C]
      else if c = CHR 0x08 then [CHR 0x5C, CHR ''b'']
      else if c = CHR 0x0C then [CHR 0x5C, CHR ''f'']
      else if c = CHR 0x0A then [CHR 0x5C, CHR ''n'']
      else if c = CHR 0x0D then [CHR 0x5C, CHR ''r'']
      else if c = CHR 0x09 then [CHR 0x5C, CHR ''t'']
      else if (of_char c :: nat) < 32 then
        [CHR 0x5C, CHR ''u'', CHR ''0'', CHR ''0'',
         digit_char (of_char c div 16), digit_char (of_char c mod 16)]
      else [c])"

definition json_quote :: "string \<Rightarrow> string" where
  "json_quote s = [CHR 0x22] @ concat (map json_escape s) @ [CHR 0x22]"

fun json_stringify :: "jsval \<Rightarrow> string option" where
  "json_stringify JUndef = None"
| "json_stringify JNull = Some ''null''"
| "json_stringify (JBool b) = Some (if b then ''true'' else ''false'')"
| "json_stringify (JNum n) = Some (show_int n)"
| "json_stringify (JStr s) = Some (json_quote s)"
| "json_stringify (JArr xs) =
     Some (''['' @ join '',''
       (map (\<lambda>x. case json_stringify x of None \<Rightarrow> ''null'' | Some t \<Rightarrow> t) xs) @ '']'')"
| "json_stringify (JObj kvs) =
     Some (''{'' @ join '',''
       (concat (map (\<lambda>kv. case json_stringify (snd kv) of None \<Rightarrow> []
                            | Some t \<Rightarrow> [json_quote (fst kv) @ '':'' @ t]) kvs)) @ ''}'')"

subsection \<open>The process: console, exit code, requests\<close>

datatype stream = Stdout | Stderr

text \<open>
  The two errors rendering can raise, and the message of each in Node's wording:
  a property read on \<^verbatim>\<open>null\<close> or \<^verbatim>\<open>undefined\<close>, and the conversion of an object to
  a string.
\<close>

datatype js_error = CannotReadProperty jsval string | CannotConvert

fun error_message :: "js_error \<Rightarrow> string" where
  "error_message (CannotReadProperty v k) =
     ''Cannot read properties of '' @ (if v = JNull then ''null'' else ''undefined'') @
     '' (reading '' @ [CHR 0x27] @ k @ [CHR 0x27] @ '')''"
| "error_message CannotConvert = ''Cannot convert object to primitive value''"

record request =
  pathname :: string
  http_method :: string
  body :: jsval

text \<open>
  What an invocation leaves behind: the lines written by \<^verbatim>\<open>console.log\<close>
  (\<open>Stdout\<close>) and \<^verbatim>\<open>console.error\<close> (\<open>Stderr\<close>) in order, \<^verbatim>\<open>process.exitCode\<close>
  (\<open>None\<close> while unset, which exits with 0), the calls of \<^verbatim>\<open>client.request\<close> and
  the number of calls of the daemon probe \<^verbatim>\<open>isAgentDaemonRunning\<close>.
\<close>

record proc =
  console :: "(stream \<times> string) list"
  exitCode :: "int option"
  requests :: "request list"
  probes :: nat

text \<open>
  A function returns, raises an error, or ends the process with \<^verbatim>\<open>process.exit\<close>.
\<close>

datatype outcome = Returned proc | Thrown js_error proc | Exited int proc

text \<open>The effects of the renderer, statement by statement.\<close>

datatype stmt = Log stream string | SetExitCode int | Raise js_error

fun exec :: "stmt list \<Rightarrow> proc \<Rightarrow> outcome" where
  "exec [] p = Returned p"
| "exec (Log st s # ss) p = exec ss (p\<lparr>console := console p @ [(st, s)]\<rparr>)"
| "exec (SetExitCode n # ss) p = exec ss (p\<lparr>exitCode := Some n\<rparr>)"
| "exec (Raise e # ss) p = Thrown e p"

text \<open>
  \<^verbatim>\<open>console.log\<close> or \<^verbatim>\<open>console.error\<close> of one template literal: a conversion that
  fails raises before anything is written.
\<close>

definition log_tmpl :: "stream \<Rightarrow> string option list \<Rightarrow> stmt" where
  "log_tmpl st pieces = (case tmpl pieces of None \<Rightarrow> Raise CannotConvert | Some s \<Rightarrow> Log st s)"

text \<open>
  \<^verbatim>\<open>JSON.stringify(v)\<close> as a value, and its rendering as the second argument of
  \<^verbatim>\<open>console.log\<close>, which writes a string as it is and \<^verbatim>\<open>undefined\<close> as the word.
\<close>

definition json_value :: "jsval \<Rightarrow> jsval" where
  "json_value v = (case json_stringify v of None \<Rightarrow> JUndef | Some t \<Rightarrow> JStr t)"

definition json_text :: "jsval \<Rightarrow> string" where
  "json_text v = (case json_stringify v of None \<Rightarrow> ''undefined'' | Some t \<Rightarrow> t)"

subsection \<open>The run-result renderer\<close>

text \<open>The block guarded by \<^verbatim>\<open>decision.target && typeof decision.target === 'object'\<close>.\<close>

text \<open>
  \<^verbatim>\<open>Array.isArray(v)\<close>, and \<^verbatim>\<open>v[0]\<close> on an array, which is \<^verbatim>\<open>undefined\<close> when
  the array is empty.
\<close>

fun is_array :: "jsval \<Rightarrow> bool" where
  "is_array (JArr xs) = True"
| "is_array v = False"

fun element0 :: "jsval \<Rightarrow> jsval" where
  "element0 (JArr (x # xs)) = x"
| "element0 v = JUndef"

text \<open>
  The constants \<^verbatim>\<open>exact\<close>, \<^verbatim>\<open>partial\<close> and \<^verbatim>\<open>label\<close>; \<open>None\<close> when joining
  \<^verbatim>\<open>text_exact\<close> raises.
\<close>

definition target_label :: "jsval \<Rightarrow> jsval option" where
  "target_label hints =
     (case (if is_array (field hints ''text_exact'')
            then (case field hints ''text_exact'' of JArr xs \<Rightarrow> array_join '' | '' xs
                                                     | _ \<Rightarrow> Some [])
            else Some [])
      of None \<Rightarrow> None
       | Some exact \<Rightarrow>
           (let partial = js_or (field hints ''text_partial'')
                  (js_or (js_and (JBool (is_array (field hints ''text_contains'')))
                                 (element0 (field hints ''text_contains'')))
                         (JStr []))
            in Some (js_or (JStr exact) partial)))"

definition render_target :: "jsval \<Rightarrow> stmt list" where
  "render_target decision =
     (let target = field decision ''target'' in
      if truthy target \<and> typeof target = ''object'' then
        (let hints = js_or (field target ''hints'') (JObj []) in
         case target_label hints of
           None \<Rightarrow> [Raise CannotConvert]
         | Some label \<Rightarrow>
             if truthy label then [log_tmpl Stdout [Some ''   target: '', to_string label]]
             else [])
      else [])"

definition render_result :: "jsval \<Rightarrow> stmt list" where
  "render_result result =
     (let next = field result ''next'' in
      if truthy next \<and> next \<noteq> JStr ''continue'' then
        [log_tmpl Stdout
           [Some ''   result: next='', to_string next,
            if truthy (field result ''reason'')
            then tmpl [Some '' reason='', to_string (field result ''reason'')]
            else Some []]]
      else if truthy (field result ''clicked'') then
        (let clicked = field result ''clicked'' in
         [log_tmpl Stdout
            [Some ''   clicked: '',
             to_string (js_or (field clicked ''name'')
               (js_or (field clicked ''id'') (JStr ''candidate''))),
             Some '' (state='',
             to_string (js_or (field clicked ''hit_state'') (JStr ''n/a'')),
             Some '')'']])
      else [])"

definition render_assistant :: "jsval \<Rightarrow> stmt list" where
  "render_assistant entry =
     (if truthy (field entry ''assistant'') then
        (let parsed = js_or (field (field entry ''assistant'') ''parsed'')
                            (field (field entry ''assistant'') ''raw'') in
         [log_tmpl Stdout
            [Some ''   assistant: '',
             to_string (if typeof parsed = ''string'' then parsed else json_value parsed)]])
      else [])"

text \<open>
  The body of the loop over the timeline. An entry that is \<^verbatim>\<open>null\<close> or
  \<^verbatim>\<open>undefined\<close> raises at \<^verbatim>\<open>entry.iteration\<close>; every later receiver is an operand
  that was tested truthy or defaulted to \<^verbatim>\<open>{}\<close>.
\<close>

definition render_entry :: "jsval \<Rightarrow> stmt list" where
  "render_entry entry =
     (if nullish entry then [Raise (CannotReadProperty entry ''iteration'')]
      else
        (let iter = js_coalesce (field entry ''iteration'') (JStr ''?'');
             decision = js_or (field entry ''decision'') (JObj []);
             action = js_or (field decision ''action'') (JStr ''none'');
             reason = js_or (field decision ''reason'')
                        (js_or (field decision ''summary'')
                           (js_or (opt_field (opt_field decision ''target'') ''reason'') (JStr [])));
             result = js_or (field entry ''result'') (JObj [])
         in [log_tmpl Stdout
               [Some '' step '', to_string iter, Some '': action='', to_string action,
                if truthy reason then tmpl [Some '' :: '', to_string reason] else Some []]]
            @ render_target decision
            @ render_result result
            @ render_assistant entry))"

definition effective_status :: "jsval \<Rightarrow> jsval" where
  "effective_status run =
     js_or (field run ''status'')
       (if truthy (field run ''ok'') then JStr ''completed'' else JStr ''unknown'')"

definition timeline_of :: "jsval \<Rightarrow> jsval list" where
  "timeline_of run = (case field run ''timeline'' of JArr xs \<Rightarrow> xs | _ \<Rightarrow> [])"

definition render_history :: "jsval \<Rightarrow> stmt list" where
  "render_history run =
     (case field run ''completeHistory'' of
        JArr hs \<Rightarrow>
          if hs \<noteq> [] then [log_tmpl Stdout [Some '' complete history: '', array_join '' | '' hs]]
          else []
      | _ \<Rightarrow> [])"

definition render_body :: "jsval \<Rightarrow> stmt list" where
  "render_body run =
     (if \<not> truthy run \<or> typeof run \<noteq> ''object'' then
        [Log Stdout (''Agent response: '' @ json_text run)]
      else
        (let status = effective_status run;
             timeline = timeline_of run
         in [log_tmpl Stdout
               [Some ''[nerovaagent] status='', to_string status,
                Some '' iterations='',
                to_string (js_coalesce (field run ''iterations'') (JStr ''n/a'')),
                Some '' agent='',
                to_string (js_coalesce (opt_field (field run ''agent'') ''id'') (JStr ''unknown''))]]
            @ (if timeline = [] then [Log Stdout ''[nerovaagent] timeline: <empty>''] else [])
            @ concat (map render_entry timeline)
            @ render_history run
            @ (if status \<noteq> JStr ''completed'' then
                 [SetExitCode 1,
                  log_tmpl Stderr
                    [Some ''[nerovaagent] run finished with status '', to_string status,
                     Some ''. Inspect timeline for details.'']]
               else [])))"

definition renderRunResult :: "jsval \<Rightarrow> proc \<Rightarrow> outcome" where
  "renderRunResult run p = exec (render_body run) p"

subsection \<open>The world outside the process\<close>

text \<open>
  A failed \<^verbatim>\<open>client.request\<close>: \<open>message\<close> is what
  \<^verbatim>\<open>console.error\<close> writes for \<^verbatim>\<open>err?.message || err\<close>, and \<open>data\<close> what it
  writes for \<^verbatim>\<open>err.data\<close> when that is truthy.
\<close>

record client_error =
  message :: string
  data :: "string option"

text \<open>
  The collaborators of an invocation: \<^verbatim>\<open>readFileSync(path, 'utf8')\<close> (\<open>Inl\<close> is the
  message of the error it raises), \<^verbatim>\<open>process.env\<close>, the answer of the daemon probe
  \<^verbatim>\<open>isAgentDaemonRunning\<close> (a probe that answers; one that itself fails is not
  modelled) and the answer of \<^verbatim>\<open>client.request\<close>.
\<close>

record world =
  files :: "string \<Rightarrow> string + string"
  environ :: "string \<Rightarrow> string option"
  daemon_running :: bool
  respond :: "request \<Rightarrow> client_error + jsval"

definition is_space :: "char \<Rightarrow> bool" where
  "is_space c = (c \<in> set [CHR 0x09, CHR 0x0A, CHR 0x0B, CHR 0x0C, CHR 0x0D, CHR 0x20, CHR 0xA0])"

definition trim :: "string \<Rightarrow> string" where
  "trim s = rev (dropWhile is_space (rev (dropWhile is_space s)))"

text \<open>\<^verbatim>\<open>console.error(line); process.exit(1)\<close>.\<close>

definition die :: "string \<Rightarrow> proc \<Rightarrow> outcome" where
  "die line p = Exited 1 (p\<lparr>console := console p @ [(Stderr, line)]\<rparr>)"

text \<open>
  \<^verbatim>\<open>loadFileSafe\<close>: the contents, or (\<open>Inl\<close>) the line written before
  \<^verbatim>\<open>process.exit(1)\<close>. The path is taken to hold no \<^verbatim>\<open>%\<close> directive of
  \<^verbatim>\<open>console.error\<close>.
\<close>

definition loadFileSafe :: "world \<Rightarrow> string \<Rightarrow> string + string" where
  "loadFileSafe w filePath =
     (case files w filePath of
        Inr text \<Rightarrow> Inr text
      | Inl msg \<Rightarrow> Inl (''Failed to read '' @ filePath @ '': '' @ msg))"

definition missing_prompt_message :: string where
  "missing_prompt_message =
     ''A prompt is required. Pass as argument or use --prompt/--prompt-file.''"

definition daemon_message :: string where
  "daemon_message =
     ''No active nerova agent daemon detected. Run '' @ [CHR 0x60] @ ''nerovaagent'' @
     [CHR 0x60] @ '' first to activate it.''"

text \<open>
  Lines 99 to 109 of \<^verbatim>\<open>handleStart\<close>: the prompt before trimming, or (\<open>Inl\<close>) the
  line written before \<^verbatim>\<open>process.exit(1)\<close>.
\<close>

definition resolve_prompt :: "world \<Rightarrow> parsed_options \<Rightarrow> string + string" where
  "resolve_prompt w options =
     (case (if \<not> truthy_str (prompt options) \<and> truthy_str (promptFile options)
            then map_sum id Some (loadFileSafe w (the (promptFile options)))
            else Inr (prompt options))
      of Inl line \<Rightarrow> Inl line
       | Inr loaded \<Rightarrow>
           (let joined = (if \<not> truthy_str loaded \<and> 0 < length (positional options)
                          then Some (join '' '' (positional options)) else loaded)
            in case joined of
                 None \<Rightarrow> Inl missing_prompt_message
               | Some text \<Rightarrow>
                   if text = [] \<or> trim text = [] then Inl missing_prompt_message
                   else Inr text))"

text \<open>Lines 111 to 114: the context notes before trimming.\<close>

definition resolve_context :: "world \<Rightarrow> parsed_options \<Rightarrow> string + string" where
  "resolve_context w options =
     (let notes = (if truthy_str (contextNotes options) then the (contextNotes options) else [])
      in if notes = [] \<and> truthy_str (contextFile options)
         then loadFileSafe w (the (contextFile options))
         else Inr notes)"

text \<open>\<^verbatim>\<open>options.key || process.env.NAME || null\<close>.\<close>

definition key_or_env :: "world \<Rightarrow> string option \<Rightarrow> string \<Rightarrow> jsval" where
  "key_or_env w key name =
     (if truthy_str key then JStr (the key)
      else if truthy_str (environ w name) then JStr (the (environ w name))
      else JNull)"

definition run_payload :: "world \<Rightarrow> parsed_options \<Rightarrow> string \<Rightarrow> string \<Rightarrow> jsval" where
  "run_payload w options text notes =
     JObj [(''prompt'', JStr (trim text)),
           (''contextNotes'', JStr (if notes \<noteq> [] then trim notes else [])),
           (''criticKey'', key_or_env w (criticKey options) ''NEROVA_AGENT_CRITIC_KEY''),
           (''assistantKey'', key_or_env w (assistantKey options) ''NEROVA_AGENT_ASSISTANT_KEY''),
           (''assistantId'', key_or_env w (assistantId options) ''NEROVA_AGENT_ASSISTANT_ID'')]"

definition requireAgentDaemon :: "world \<Rightarrow> proc \<Rightarrow> outcome" where
  "requireAgentDaemon w p =
     (let probed = p\<lparr>probes := probes p + 1\<rparr> in
      if daemon_running w then Returned probed else die daemon_message probed)"

text \<open>
  \<^verbatim>\<open>callRuntime\<close>: the call is recorded, then the client answers or fails.
\<close>

definition callRuntime :: "world \<Rightarrow> request \<Rightarrow> proc \<Rightarrow> (client_error + jsval) \<times> proc" where
  "callRuntime w req p = (respond w req, p\<lparr>requests := requests p @ [req]\<rparr>)"

text \<open>The \<^verbatim>\<open>catch\<close> blocks of the two handlers, for a failed request.\<close>

definition report_failure :: "string \<Rightarrow> client_error \<Rightarrow> proc \<Rightarrow> outcome" where
  "report_failure headline err p =
     Exited 1 (p\<lparr>console := console p @ [(Stderr, headline @ '' '' @ message err)] @
       (case data err of None \<Rightarrow> [] | Some d \<Rightarrow> [(Stderr, ''Runtime response: '' @ d)])\<rparr>)"

definition handleStart :: "world \<Rightarrow> parsed_options \<Rightarrow> proc \<Rightarrow> outcome" where
  "handleStart w options p =
     (case resolve_prompt w options of
        Inl line \<Rightarrow> die line p
      | Inr text \<Rightarrow>
          (case resolve_context w options of
             Inl line \<Rightarrow> die line p
           | Inr notes \<Rightarrow>
               (case requireAgentDaemon w p of
                  Returned p1 \<Rightarrow>
                    (case callRuntime w
                            \<lparr>pathname = ''/run/start'', http_method = ''POST'',
                             body = run_payload w options text notes\<rparr> p1
                     of (Inr result, p2) \<Rightarrow>
                          (case renderRunResult result p2 of
                             Thrown e p3 \<Rightarrow>
                               die (''Failed to start agent: '' @ error_message e) p3
                           | finished \<Rightarrow> finished)
                      | (Inl err, p2) \<Rightarrow> report_failure ''Failed to start agent:'' err p2)
                | stopped \<Rightarrow> stopped)))"

definition handlePlaywrightLaunch :: "world \<Rightarrow> proc \<Rightarrow> outcome" where
  "handlePlaywrightLaunch w p =
     (case requireAgentDaemon w p of
        Returned p1 \<Rightarrow>
          (case callRuntime w
                  \<lparr>pathname = ''/runtime/playwright/launch'', http_method = ''POST'',
                   body = JUndef\<rparr> p1
           of (Inr result, p2) \<Rightarrow>
                Returned (p2\<lparr>console := console p2 @
                  [(Stdout, ''Playwright ready: '' @ json_text result)]\<rparr>)
            | (Inl err, p2) \<Rightarrow> report_failure ''Failed to warm Playwright runtime:'' err p2)
      | stopped \<Rightarrow> stopped)"

definition initial_proc :: proc where
  "initial_proc = \<lparr>console = [], exitCode = None, requests = [], probes = 0\<rparr>"

text \<open>
  A payload the renderer treats as a structured object: it is truthy and its
  \<^verbatim>\<open>typeof\<close> is \<^verbatim>\<open>'object'\<close>, which holds of objects and of arrays.
\<close>

fun is_structured :: "jsval \<Rightarrow> bool" where
  "is_structured (JArr xs) = True"
| "is_structured (JObj kvs) = True"
| "is_structured v = False"

subsection \<open>Notions used in the properties\<close>

text \<open>
  A value every part of which converts to a string: no object in it has an own property
  named \<^verbatim>\<open>toString\<close>.
\<close>

fun printable :: "jsval \<Rightarrow> bool" where
  "printable (JArr xs) = list_all printable xs"
| "printable (JObj kvs) =
     (''toString'' \<notin> set (map fst kvs) \<and> list_all (\<lambda>kv. printable (snd kv)) kvs)"
| "printable v = True"

text \<open>
  What a statement list does to any process: the lines it appends, the exit code it sets
  last (if any), and the error that stops it (if any).
\<close>

fun effects :: "stmt list \<Rightarrow> (stream \<times> string) list \<times> int option \<times> js_error option" where
  "effects [] = ([], None, None)"
| "effects (Log st s # ss) = (case effects ss of (ls, c, e) \<Rightarrow> ((st, s) # ls, c, e))"
| "effects (SetExitCode n # ss) =
     (case effects ss of (ls, c, e) \<Rightarrow> (ls, (case c of None \<Rightarrow> Some n | Some m \<Rightarrow> Some m), e))"
| "effects (Raise err # ss) = ([], None, Some err)"

definition apply_effects ::
  "(stream \<times> string) list \<times> int option \<times> js_error option \<Rightarrow> proc \<Rightarrow> outcome" where
  "apply_effects t p =
     (case t of (ls, c, e) \<Rightarrow>
        (let p' = p\<lparr>console := console p @ ls,
                    exitCode := (case c of None \<Rightarrow> exitCode p | Some n \<Rightarrow> Some n)\<rparr>
         in case e of None \<Rightarrow> Returned p' | Some err \<Rightarrow> Thrown err p'))"

fun quiet :: "stmt \<Rightarrow> bool" where
  "quiet (Raise e) = False"
| "quiet s = True"

text \<open>The process an outcome ends in, and the lines written since the process \<open>p\<close>.\<close>

fun final :: "outcome \<Rightarrow> proc" where
  "final (Returned p) = p"
| "final (Thrown e p) = p"
| "final (Exited n p) = p"

definition emitted :: "proc \<Rightarrow> outcome \<Rightarrow> (stream \<times> string) list" where
  "emitted p r = drop (length (console p)) (console (final r))"

fun raised :: "outcome \<Rightarrow> js_error option" where
  "raised (Thrown e p) = Some e"
| "raised r = None"

fun no_exit :: "stmt \<Rightarrow> bool" where
  "no_exit (SetExitCode n) = False"
| "no_exit s = True"

text \<open>
  A sparse run: no status, and two timeline entries, one with no field at all and one
  whose decision target, clicked element and assistant are objects with no field.
\<close>

definition sparse_run :: jsval where
  "sparse_run =
     JObj [(''timeline'', JArr [JObj [],
       JObj [(''decision'', JObj [(''target'', JObj [])]),
             (''result'', JObj [(''clicked'', JObj [])]),
             (''assistant'', JObj [])]])]"







text \<open>A field that is absent counts as the empty string or the empty sequence.\<close>

definition text_of :: "string option \<Rightarrow> string" where
  "text_of v = (case v of None \<Rightarrow> [] | Some s \<Rightarrow> s)"


text \<open>The first non-empty string of a list of candidates, empty if there is none.\<close>

fun first_nonempty :: "string list \<Rightarrow> string" where
  "first_nonempty [] = []"
| "first_nonempty (s # ss) = (if s \<noteq> [] then s else first_nonempty ss)"




text \<open>
  The contents of the file named by \<^verbatim>\<open>--prompt-file\<close>, when one is named: \<open>Inl\<close> if
  it cannot be read, and the empty string when no file is named.
\<close>

definition prompt_file_text :: "world \<Rightarrow> parsed_options \<Rightarrow> string + string" where
  "prompt_file_text w options =
     (case promptFile options of
        None \<Rightarrow> Inr []
      | Some f \<Rightarrow> if f = [] then Inr [] else files w f)"

text \<open>
  An example world: the file \<^verbatim>\<open>p.txt\<close> holds \<^verbatim>\<open>b\<close>, no other file can be read, no
  environment variable is set, and the runtime answers every request with a completed run.
\<close>

definition example_world :: "bool \<Rightarrow> world" where
  "example_world running =
     \<lparr>files = (\<lambda>f. if f = ''p.txt'' then Inr ''b''
                    else Inl (''ENOENT: no such file or directory, open '' @ f)),
      environ = (\<lambda>name. None),
      daemon_running = running,
      respond = (\<lambda>req. Inr (JObj [(''status'', JStr ''completed'')]))\<rparr>"

text \<open>
  The prompt source the \<^verbatim>\<open>start\<close> flow settles on, given the contents of the prompt
  file (empty when there is none): the first non-empty one of the \<^verbatim>\<open>--prompt\<close> value,
  the file contents and the positional tokens joined by a single space.
\<close>

definition chosen_prompt :: "parsed_options \<Rightarrow> string \<Rightarrow> string" where
  "chosen_prompt options file_text =
     first_nonempty [text_of (prompt options), file_text, join '' '' (positional options)]"

definition start_request :: "world \<Rightarrow> parsed_options \<Rightarrow> string \<Rightarrow> string \<Rightarrow> request" where
  "start_request w options text notes =
     \<lparr>pathname = ''/run/start'', http_method = ''POST'',
      body = run_payload w options text notes\<rparr>"

text \<open>
  Option parsing in the words of the specification, as a recursion over the remaining
  tokens: a recognized flag with a following non-empty token is consumed as a pair, every
  other token is appended to the positional sequence.
\<close>

fun parse_tokens :: "string list \<Rightarrow> parsed_options \<Rightarrow> parsed_options" where
  "parse_tokens [] out = out"
| "parse_tokens [t] out = push_positional t out"
| "parse_tokens (t # v # rest) out =
     (if t \<in> set recognized_flags \<and> v \<noteq> []
      then parse_tokens rest (store_flag t v out)
      else parse_tokens (v # rest) (push_positional t out))"

section \<open>Properties\<close>

subsection \<open>Option parsing\<close>

lemma parse_loop_end: "length argv \<le> i \<Longrightarrow> parse_loop argv i out = out"
  by (subst parse_loop.simps) simp

lemma drop_eq_ConsD:
  "drop i xs = y # ys \<Longrightarrow> i < length xs \<and> xs ! i = y \<and> drop (Suc i) xs = ys"
  by (metis Cons_nth_drop_Suc drop_all list.distinct(1) list.inject not_less)

lemma recognized_cases:
  "flag \<in> set recognized_flags \<Longrightarrow>
     flag = ''--prompt-file'' \<or> flag = ''--prompt'' \<or> flag = ''--context'' \<or>
     flag = ''--context-file'' \<or> flag = ''--critic-key'' \<or> flag = ''--assistant-key'' \<or>
     flag = ''--assistant-id''"
  by (simp add: recognized_flags_def)

lemma parse_loop_pair:
  assumes "flag \<in> set recognized_flags" "i + 1 < length argv" "argv ! i = flag"
    "argv ! (i + 1) = v" "v \<noteq> []"
  shows "parse_loop argv i out = parse_loop argv (i + 2) (store_flag flag v out)"
proof -
  have nx: "at_index argv (i + 1) = Some v" "i < length argv"
    using assms by (simp_all add: at_index_def)
  have "parse_loop argv i out =
      (let token = argv ! i; next = at_index argv (i + 1) in
         if token = ''--prompt-file'' \<and> truthy_str next then
           parse_loop argv (i + 2) (out\<lparr>promptFile := next\<rparr>)
         else if token = ''--prompt'' \<and> truthy_str next then
           parse_loop argv (i + 2) (out\<lparr>prompt := next\<rparr>)
         else if token = ''--context'' \<and> truthy_str next then
           parse_loop argv (i + 2) (out\<lparr>contextNotes := next\<rparr>)
         else if token = ''--context-file'' \<and> truthy_str next then
           parse_loop argv (i + 2) (out\<lparr>contextFile := next\<rparr>)
         else if token = ''--critic-key'' \<and> truthy_str next then
           parse_loop argv (i + 2) (out\<lparr>criticKey := next\<rparr>)
         else if token = ''--assistant-key'' \<and> truthy_str next then
           parse_loop argv (i + 2) (out\<lparr>assistantKey := next\<rparr>)
         else if token = ''--assistant-id'' \<and> truthy_str next then
           parse_loop argv (i + 2) (out\<lparr>assistantId := next\<rparr>)
         else parse_loop argv (i + 1) (out\<lparr>positional := positional out @ [token]\<rparr>))"
    using nx(2) by (subst parse_loop.simps) (simp only: if_True)
  also have "\<dots> = parse_loop argv (i + 2) (store_flag flag v out)"
    unfolding Let_def nx(1) assms(3) store_flag_def
    using recognized_cases [OF assms(1)] assms(5)
    by (elim disjE) simp_all
  finally show ?thesis .
qed

lemma parse_loop_push:
  assumes "i < length argv" "\<not> truthy_str (at_index argv (i + 1))"
  shows "parse_loop argv i out = parse_loop argv (i + 1) (push_positional (argv ! i) out)"
  apply (subst parse_loop.simps)
  using assms
  apply (simp add: push_positional_def)
  done

lemma parse_loop_other:
  assumes "i < length argv" "argv ! i \<notin> set recognized_flags"
  shows "parse_loop argv i out = parse_loop argv (i + 1) (push_positional (argv ! i) out)"
  apply (subst parse_loop.simps)
  using assms
  apply (simp add: push_positional_def recognized_flags_def Let_def)
  done

lemma parse_loop_tokens:
  "parse_loop argv i out = parse_tokens (drop i argv) out"
proof (induction "length argv - i" arbitrary: i out rule: less_induct)
  case less
  show ?case
  proof (cases "i < length argv")
    case False
    then show ?thesis by (simp add: parse_loop_end)
  next
    case True
    note d1 = Cons_nth_drop_Suc [OF True, symmetric]
    show ?thesis
    proof (cases "Suc i < length argv")
      case False
      then have l: "drop (Suc i) argv = []" by simp
      have n: "\<not> truthy_str (at_index argv (i + 1))"
        using False by (simp add: at_index_def)
      have "parse_loop argv i out = parse_loop argv (i + 1) (push_positional (argv ! i) out)"
        by (rule parse_loop_push [OF True n])
      also have "\<dots> = push_positional (argv ! i) out"
        using False by (simp add: parse_loop_end)
      finally show ?thesis by (simp add: d1 l)
    next
      case s: True
      note d2 = Cons_nth_drop_Suc [OF s, symmetric]
      show ?thesis
      proof (cases "argv ! i \<in> set recognized_flags \<and> argv ! Suc i \<noteq> []")
        case c: True
        have "parse_loop argv i out =
            parse_loop argv (i + 2) (store_flag (argv ! i) (argv ! Suc i) out)"
          using c s by (intro parse_loop_pair) simp_all
        also have "\<dots> = parse_tokens (drop (i + 2) argv) (store_flag (argv ! i) (argv ! Suc i) out)"
          using s by (intro less) simp
        finally show ?thesis using c by (simp add: d1 d2)
      next
        case c: False
        have "parse_loop argv i out = parse_loop argv (i + 1) (push_positional (argv ! i) out)"
        proof (cases "argv ! i \<in> set recognized_flags")
          case True
          then have "\<not> truthy_str (at_index argv (i + 1))"
            using c s by (simp add: at_index_def)
          then show ?thesis by (rule parse_loop_push [OF \<open>i < length argv\<close>])
        next
          case False
          then show ?thesis by (rule parse_loop_other [OF \<open>i < length argv\<close>])
        qed
        also have "\<dots> = parse_tokens (drop (i + 1) argv) (push_positional (argv ! i) out)"
          using True by (intro less) simp
        finally show ?thesis using c by (auto simp: d1 d2)
      qed
    qed
  qed
qed

text \<open>
  C4, as the code has it. For every argument sequence, \<^verbatim>\<open>parseArgs\<close> computes what
  the recursion over the tokens computes: a recognized flag followed by a non-empty token
  is stored together with that token, every other token goes to the positional sequence,
  in order. In particular, at every position \<open>i\<close> the loop reaches in \<open>argv\<close>: a
  recognized flag followed by a non-empty token is consumed with it and the loop continues
  two positions on; a recognized flag followed by an empty-string token is not consumed but
  appended to the positional sequence, the loop continuing at the empty token; a
  recognized flag that is the last token is appended to the positional sequence and the
  loop ends. \<open>parseArgs\<close> is a total function with no error result.
\<close>

theorem parseArgs_flag_pairs:
  assumes "flag \<in> set recognized_flags"
  shows "parseArgs argv = parse_tokens argv empty_options \<and>
         (drop i argv = flag # v # rest \<and> v \<noteq> [] \<longrightarrow>
            parse_loop argv i out = parse_loop argv (i + 2) (store_flag flag v out)) \<and>
         (drop i argv = flag # [] # rest \<longrightarrow>
            parse_loop argv i out = parse_loop argv (i + 1) (push_positional flag out)) \<and>
         (drop i argv = [flag] \<longrightarrow> parse_loop argv i out = push_positional flag out)"
proof (intro conjI impI)
  show "parseArgs argv = parse_tokens argv empty_options"
    by (simp add: parseArgs_def parse_loop_tokens)
next
  assume a: "drop i argv = flag # v # rest \<and> v \<noteq> []"
  note 1 = drop_eq_ConsD [OF conjunct1 [OF a]]
  note 2 = drop_eq_ConsD [OF conjunct2 [OF conjunct2 [OF 1]]]
  show "parse_loop argv i out = parse_loop argv (i + 2) (store_flag flag v out)"
    using assms a 1 2 by (intro parse_loop_pair) simp_all
next
  assume a: "drop i argv = flag # [] # rest"
  note 1 = drop_eq_ConsD [OF a]
  note 2 = drop_eq_ConsD [OF conjunct2 [OF conjunct2 [OF 1]]]
  show "parse_loop argv i out = parse_loop argv (i + 1) (push_positional flag out)"
    using parse_loop_push [of i argv out] 1 2 by (simp add: at_index_def)
next
  assume a: "drop i argv = [flag]"
  note 1 = drop_eq_ConsD [OF a]
  then have 2: "length argv = Suc i" by simp
  have "parse_loop argv i out = parse_loop argv (i + 1) (push_positional flag out)"
    using parse_loop_push [of i argv out] 1 2 by (simp add: at_index_def)
  then show "parse_loop argv i out = push_positional flag out"
    using 2 by (simp add: parse_loop_end)
qed

text \<open>
  The three cases at work in one argument sequence: \<^verbatim>\<open>--prompt\<close> with its value at
  position 1, \<^verbatim>\<open>--context\<close> before an empty token at position 3, and
  \<^verbatim>\<open>--assistant-id\<close> as the last token at position 5.
\<close>

theorem parseArgs_flag_pairs_witness:
  "''--prompt'' \<in> set recognized_flags \<and> ''--context'' \<in> set recognized_flags \<and>
   ''--assistant-id'' \<in> set recognized_flags \<and>
   parse_loop [''fix'', ''--prompt'', ''a b'', ''--context'', [], ''--assistant-id''] 1
       (push_positional ''fix'' empty_options) =
     parse_loop [''fix'', ''--prompt'', ''a b'', ''--context'', [], ''--assistant-id''] (1 + 2)
       (store_flag ''--prompt'' ''a b'' (push_positional ''fix'' empty_options)) \<and>
   parse_loop [''fix'', ''--prompt'', ''a b'', ''--context'', [], ''--assistant-id''] 3
       (store_flag ''--prompt'' ''a b'' (push_positional ''fix'' empty_options)) =
     parse_loop [''fix'', ''--prompt'', ''a b'', ''--context'', [], ''--assistant-id''] (3 + 1)
       (push_positional ''--context''
         (store_flag ''--prompt'' ''a b'' (push_positional ''fix'' empty_options))) \<and>
   parse_loop [''fix'', ''--prompt'', ''a b'', ''--context'', [], ''--assistant-id''] 5
       (push_positional []
         (push_positional ''--context''
           (store_flag ''--prompt'' ''a b'' (push_positional ''fix'' empty_options)))) =
     \<lparr>positional = [''fix'', ''--context'', [], ''--assistant-id''], promptFile = None,
      prompt = Some ''a b'', contextNotes = None, contextFile = None, criticKey = None,
      assistantKey = None, assistantId = None\<rparr>"
proof -
  let ?argv = "[''fix'', ''--prompt'', ''a b'', ''--context'', [], ''--assistant-id'']"
  have f: "''--prompt'' \<in> set recognized_flags" "''--context'' \<in> set recognized_flags"
    "''--assistant-id'' \<in> set recognized_flags"
    by (simp_all add: recognized_flags_def)
  have d:
    "drop 1 ?argv = ''--prompt'' # ''a b'' # [''--context'', [], ''--assistant-id''] \<and>
     ''a b'' \<noteq> []"
    "drop 3 ?argv = ''--context'' # [] # [''--assistant-id'']"
    "drop 5 ?argv = [''--assistant-id'']"
    by code_simp+
  have e: "push_positional ''--assistant-id'' (push_positional []
         (push_positional ''--context''
           (store_flag ''--prompt'' ''a b'' (push_positional ''fix'' empty_options)))) =
      \<lparr>positional = [''fix'', ''--context'', [], ''--assistant-id''], promptFile = None,
      prompt = Some ''a b'', contextNotes = None, contextFile = None, criticKey = None,
      assistantKey = None, assistantId = None\<rparr>"
    by (simp add: push_positional_def store_flag_def empty_options_def)
  note s1 = conjunct2 [OF parseArgs_flag_pairs [OF f(1)]]
  note s2 = conjunct2 [OF parseArgs_flag_pairs [OF f(2)]]
  note s3 = conjunct2 [OF parseArgs_flag_pairs [OF f(3)]]
  show ?thesis
    using f
      conjunct1 [OF s1, rule_format, OF d(1)]
      conjunct1 [OF conjunct2 [OF s2], rule_format, OF d(2)]
      conjunct2 [OF conjunct2 [OF s3], rule_format, OF d(3)]
      e
    by (intro conjI) (simp_all only:)
qed

text \<open>
  C4 as stated fails on the code: in \<^verbatim>\<open>--prompt ""\<close> the flag is immediately
  followed by a value, the empty string, and is not consumed with it; both tokens end up
  in the positional sequence.
\<close>

theorem parseArgs_empty_value_counterexample:
  "prompt (parseArgs [''--prompt'', []]) = None \<and>
   positional (parseArgs [''--prompt'', []]) = [''--prompt'', []]"
  by code_simp

subsection \<open>Payloads that are not objects\<close>

text \<open>
  C10. For every run payload that is not a structured object (\<^verbatim>\<open>undefined\<close>,
  \<^verbatim>\<open>null\<close>, a boolean, a number, a string), the renderer writes the one line holding
  the serialized payload and returns: nothing else is written and the process exit code is
  left as it was, whatever the payload says.
\<close>

theorem render_non_object:
  "\<not> is_structured run \<Longrightarrow>
     \<exists>p'. renderRunResult run p = Returned p' \<and>
          console p' = console p @ [(Stdout, ''Agent response: '' @ json_text run)] \<and>
          exitCode p' = exitCode p"
  by (cases run) (simp_all add: renderRunResult_def render_body_def)

theorem render_non_object_witness:
  "\<not> is_structured (JStr ''failed'') \<and>
   (\<exists>p'. renderRunResult (JStr ''failed'') initial_proc = Returned p' \<and>
      console p' = [(Stdout, ''Agent response: '' @ [CHR 0x22] @ ''failed'' @ [CHR 0x22])] \<and>
      exitCode p' = None)"
  using render_non_object [of "JStr ''failed''" initial_proc]
  by (simp add: initial_proc_def json_text_def json_quote_def json_escape_def)

subsection \<open>Statement lists and conversions that cannot fail\<close>

lemma exec_effects: "exec ss p = apply_effects (effects ss) p"
proof (induction ss arbitrary: p)
  case Nil
  show ?case by (simp add: apply_effects_def)
next
  case (Cons s ss)
  show ?case
    by (cases s; cases "effects ss")
      (auto simp: Cons.IH apply_effects_def Let_def split: option.splits)
qed

lemma effects_quiet:
  "list_all quiet ss \<Longrightarrow> snd (snd (effects ss)) = None"
proof (induction ss)
  case Nil
  show ?case by simp
next
  case (Cons s ss)
  then show ?case by (cases s; cases "effects ss") auto
qed

lemma exec_quiet: "list_all quiet ss \<Longrightarrow> \<exists>p'. exec ss p = Returned p'"
  using effects_quiet [of ss]
  by (cases "effects ss") (auto simp: exec_effects apply_effects_def Let_def)

lemma those_map_Some:
  "(\<And>x. x \<in> set xs \<Longrightarrow> \<exists>y. f x = Some y) \<Longrightarrow> \<exists>ys. those (map f xs) = Some ys"
proof (induction xs)
  case Nil
  show ?case by simp
next
  case (Cons x xs)
  then obtain y ys where "f x = Some y" "those (map f xs) = Some ys"
    by (metis list.set_intros(1) list.set_intros(2))
  then show ?case by simp
qed

lemma to_string_printable: "printable v \<Longrightarrow> \<exists>s. to_string v = Some s"
proof (induction v)
  case (JArr xs)
  have "\<exists>ys. those (map (\<lambda>x. if nullish x then Some [] else to_string x) xs) = Some ys"
  proof (rule those_map_Some)
    fix x assume "x \<in> set xs"
    then show "\<exists>y. (if nullish x then Some [] else to_string x) = Some y"
      using JArr by (auto simp: list_all_iff)
  qed
  then show ?case by auto
qed auto

lemma array_join_printable:
  assumes "list_all printable xs"
  shows "\<exists>s. array_join sep xs = Some s"
proof -
  have "\<exists>ys. those (map (\<lambda>x. if nullish x then Some [] else to_string x) xs) = Some ys"
  proof (rule those_map_Some)
    fix x assume "x \<in> set xs"
    then show "\<exists>y. (if nullish x then Some [] else to_string x) = Some y"
      using assms to_string_printable by (auto simp: list_all_iff)
  qed
  then show ?thesis by (auto simp: array_join_def)
qed

lemma printable_field: "printable v \<Longrightarrow> printable (field v k)"
proof (cases v)
  case (JObj kvs)
  assume p: "printable v"
  show ?thesis
  proof (cases "map_of kvs k")
    case None
    then show ?thesis using JObj by simp
  next
    case (Some x)
    then have "(k, x) \<in> set kvs" by (rule map_of_SomeD)
    then show ?thesis using p JObj Some by (auto simp: list_all_iff)
  qed
qed simp_all

lemma printable_js_or: "printable a \<Longrightarrow> printable b \<Longrightarrow> printable (js_or a b)"
  by (simp add: js_or_def)

lemma printable_js_coalesce: "printable a \<Longrightarrow> printable b \<Longrightarrow> printable (js_coalesce a b)"
  by (simp add: js_coalesce_def)

lemma printable_opt_field: "printable v \<Longrightarrow> printable (opt_field v k)"
  by (simp add: opt_field_def printable_field)

lemma printable_json_value: "printable (json_value v)"
  by (simp add: json_value_def split: option.splits)

lemma those_eq_None: "those xs = None \<longleftrightarrow> None \<in> set xs"
  by (induction xs) (auto split: option.splits)

lemma tmpl_eq_None: "tmpl pieces = None \<longleftrightarrow> None \<in> set pieces"
  by (simp add: tmpl_def those_eq_None)

lemma quiet_log_tmpl: "quiet (log_tmpl st pieces) \<longleftrightarrow> None \<notin> set pieces"
  using tmpl_eq_None [of pieces] by (cases "tmpl pieces") (auto simp: log_tmpl_def)

lemma to_string_not_None: "printable v \<Longrightarrow> to_string v \<noteq> None \<and> None \<noteq> to_string v"
  using to_string_printable by fastforce

lemma None_eq_tmpl: "None = tmpl pieces \<longleftrightarrow> None \<in> set pieces"
  using tmpl_eq_None [of pieces] by auto

lemma target_label_printable:
  assumes "printable hints"
  shows "\<exists>label. target_label hints = Some label \<and> printable label"
proof -
  obtain exact where e:
    "(if is_array (field hints ''text_exact'')
      then (case field hints ''text_exact'' of JArr xs \<Rightarrow> array_join '' | '' xs
                                               | _ \<Rightarrow> Some [])
      else Some []) = Some exact"
  proof (cases "field hints ''text_exact''")
    case (JArr xs)
    then have "list_all printable xs"
      using printable_field [OF assms, of "''text_exact''"] by simp
    then show ?thesis using that JArr array_join_printable by fastforce
  qed (use that in simp_all)
  have "printable (element0 (field hints ''text_contains''))"
    using printable_field [OF assms, of "''text_contains''"]
    by (cases "field hints ''text_contains''" rule: element0.cases) simp_all
  then have c: "printable (js_and (JBool (is_array (field hints ''text_contains'')))
      (element0 (field hints ''text_contains'')))"
    by (simp add: js_and_def)
  show ?thesis
    unfolding target_label_def e
    using c assms by (simp add: Let_def printable_js_or printable_field)
qed

lemma render_target_quiet:
  assumes "printable decision"
  shows "list_all quiet (render_target decision)"
proof -
  let ?hints = "js_or (field (field decision ''target'') ''hints'') (JObj [])"
  have "printable ?hints"
    using assms by (simp add: printable_js_or printable_field)
  then obtain label where l: "target_label ?hints = Some label" "printable label"
    using target_label_printable by blast
  then show ?thesis
    by (simp add: render_target_def Let_def quiet_log_tmpl to_string_not_None)
qed

lemma render_result_quiet:
  assumes "printable result"
  shows "list_all quiet (render_result result)"
  using assms
  by (simp add: render_result_def Let_def quiet_log_tmpl tmpl_eq_None None_eq_tmpl to_string_not_None
      printable_js_or printable_field)

lemma render_assistant_quiet:
  assumes "printable entry"
  shows "list_all quiet (render_assistant entry)"
  using assms
  by (simp add: render_assistant_def Let_def quiet_log_tmpl to_string_not_None
      printable_js_or printable_field printable_json_value)

lemma render_entry_quiet:
  assumes "printable entry" "\<not> nullish entry"
  shows "list_all quiet (render_entry entry)"
  using assms
  by (simp add: render_entry_def Let_def quiet_log_tmpl tmpl_eq_None None_eq_tmpl to_string_not_None
      printable_js_or printable_js_coalesce printable_field printable_opt_field
      render_target_quiet render_result_quiet render_assistant_quiet)

lemma render_history_quiet:
  assumes "printable run"
  shows "list_all quiet (render_history run)"
proof (cases "field run ''completeHistory''")
  case (JArr hs)
  then have "list_all printable hs"
    using printable_field [OF assms, of "''completeHistory''"] by simp
  then obtain s where "array_join '' | '' hs = Some s"
    using array_join_printable by blast
  then show ?thesis using JArr by (simp add: render_history_def quiet_log_tmpl)
qed (simp_all add: render_history_def)

lemma printable_effective_status: "printable run \<Longrightarrow> printable (effective_status run)"
  by (simp add: effective_status_def printable_js_or printable_field)

lemma printable_timeline: "printable run \<Longrightarrow> list_all printable (timeline_of run)"
  using printable_field [of run "''timeline''"]
  by (auto simp: timeline_of_def split: jsval.splits)

lemma render_body_quiet:
  assumes "printable run" "\<forall>entry \<in> set (timeline_of run). \<not> nullish entry"
  shows "list_all quiet (render_body run)"
proof -
  have "list_all quiet (concat (map render_entry (timeline_of run)))"
    using assms printable_timeline [OF assms(1)]
    by (auto simp: list_all_iff dest!: render_entry_quiet)
  then show ?thesis
    using assms(1)
    by (simp add: render_body_def Let_def quiet_log_tmpl to_string_not_None
        printable_effective_status printable_js_coalesce printable_field printable_opt_field
        render_history_quiet)
qed

lemma render_returns:
  assumes "printable run" "\<forall>entry \<in> set (timeline_of run). \<not> nullish entry"
  shows "\<exists>p'. renderRunResult run p = Returned p'"
  unfolding renderRunResult_def
  by (rule exec_quiet) (rule render_body_quiet [OF assms])

subsection \<open>The renderer is a function of the run value\<close>

lemma console_apply_effects:
  "console (final (apply_effects t p)) = console p @ fst t"
  by (cases t) (auto simp: apply_effects_def Let_def split: option.splits)

lemma emitted_exec: "emitted p (exec ss p) = fst (effects ss)"
  by (simp add: emitted_def exec_effects console_apply_effects)

lemma exitCode_exec:
  "exitCode (final (exec ss p)) =
     (case fst (snd (effects ss)) of None \<Rightarrow> exitCode p | Some n \<Rightarrow> Some n)"
  by (cases "effects ss") (auto simp: exec_effects apply_effects_def Let_def split: option.splits)

lemma raised_exec: "raised (exec ss p) = snd (snd (effects ss))"
  by (cases "effects ss") (auto simp: exec_effects apply_effects_def Let_def split: option.splits)

text \<open>
  C9. Rendering the same run value twice, the second time in the process the first one
  left, writes the same lines, ends the same way (returns, or raises the same error) and
  leaves the exit code the first rendering decided. What the renderer writes, whether it
  raises and which exit code it sets depend on the run value alone, not on the process it
  starts in.
\<close>

theorem render_twice:
  "(let first = renderRunResult run p; second = renderRunResult run (final first)
    in emitted (final first) second = emitted p first \<and>
       raised second = raised first \<and>
       exitCode (final second) = exitCode (final first)) \<and>
   (\<exists>lines err code. \<forall>q.
      emitted q (renderRunResult run q) = lines \<and>
      raised (renderRunResult run q) = err \<and>
      exitCode (final (renderRunResult run q)) =
        (case code of None \<Rightarrow> exitCode q | Some n \<Rightarrow> Some n))"
proof
  show "let first = renderRunResult run p; second = renderRunResult run (final first)
    in emitted (final first) second = emitted p first \<and>
       raised second = raised first \<and>
       exitCode (final second) = exitCode (final first)"
    by (simp add: Let_def renderRunResult_def emitted_exec exitCode_exec raised_exec
        split: option.splits)
  show "\<exists>lines err code. \<forall>q.
      emitted q (renderRunResult run q) = lines \<and>
      raised (renderRunResult run q) = err \<and>
      exitCode (final (renderRunResult run q)) =
        (case code of None \<Rightarrow> exitCode q | Some n \<Rightarrow> Some n)"
    unfolding renderRunResult_def emitted_exec exitCode_exec raised_exec by blast
qed

lemma effects_append:
  "snd (snd (effects xs)) = None \<Longrightarrow>
     effects (xs @ ys) =
       (fst (effects xs) @ fst (effects ys),
        (case fst (snd (effects ys)) of None \<Rightarrow> fst (snd (effects xs)) | Some n \<Rightarrow> Some n),
        snd (snd (effects ys)))"
proof (induction xs)
  case Nil
  show ?case by (cases "effects ys") (auto split: option.splits)
next
  case (Cons x xs)
  then show ?case
    by (cases x; cases "effects xs"; cases "effects ys") (auto split: option.splits)
qed

lemma effects_no_exit: "list_all no_exit ss \<Longrightarrow> fst (snd (effects ss)) = None"
proof (induction ss)
  case Nil
  show ?case by simp
next
  case (Cons s ss)
  then show ?case by (cases s; cases "effects ss") auto
qed

lemma no_exit_log_tmpl: "no_exit (log_tmpl st pieces)"
  by (simp add: log_tmpl_def split: option.splits)

lemma render_entry_no_exit: "list_all no_exit (render_entry entry)"
  by (simp add: render_entry_def render_target_def render_result_def render_assistant_def
      Let_def no_exit_log_tmpl split: option.splits)

lemma render_history_no_exit: "list_all no_exit (render_history run)"
  by (simp add: render_history_def no_exit_log_tmpl split: jsval.splits)

lemma log_tmpl_Log: "None \<notin> set pieces \<Longrightarrow> log_tmpl st pieces = Log st (concat (map the pieces))"
proof -
  assume a: "None \<notin> set pieces"
  have "those pieces = Some (map the pieces)"
    using a
  proof (induction pieces)
    case Nil
    show ?case by simp
  next
    case (Cons x xs)
    then show ?case by (cases x) auto
  qed
  then show ?thesis by (simp add: log_tmpl_def tmpl_def)
qed

subsection \<open>Rendering a run object\<close>

lemma structured_guard: "is_structured run \<Longrightarrow> truthy run \<and> typeof run = ''object''"
  by (cases run) simp_all

text \<open>The statements of the renderer before and at the exit-status decision.\<close>

lemma render_body_split:
  assumes "is_structured run"
  shows "render_body run =
    (log_tmpl Stdout
       [Some ''[nerovaagent] status='', to_string (effective_status run),
        Some '' iterations='',
        to_string (js_coalesce (field run ''iterations'') (JStr ''n/a'')),
        Some '' agent='',
        to_string (js_coalesce (opt_field (field run ''agent'') ''id'') (JStr ''unknown''))]
     # (if timeline_of run = [] then [Log Stdout ''[nerovaagent] timeline: <empty>''] else [])
     @ concat (map render_entry (timeline_of run))
     @ render_history run)
    @ (if effective_status run \<noteq> JStr ''completed'' then
         [SetExitCode 1,
          log_tmpl Stderr
            [Some ''[nerovaagent] run finished with status '', to_string (effective_status run),
             Some ''. Inspect timeline for details.'']]
       else [])"
  using structured_guard [OF assms] by (simp add: render_body_def Let_def)

lemma summary_Log:
  assumes "printable run"
  shows "\<exists>s tail. to_string (effective_status run) = Some s \<and>
     log_tmpl Stdout
       [Some ''[nerovaagent] status='', to_string (effective_status run),
        Some '' iterations='',
        to_string (js_coalesce (field run ''iterations'') (JStr ''n/a'')),
        Some '' agent='',
        to_string (js_coalesce (opt_field (field run ''agent'') ''id'') (JStr ''unknown''))]
     = Log Stdout (''[nerovaagent] status='' @ s @ tail)"
proof -
  obtain s where s: "to_string (effective_status run) = Some s"
    using to_string_printable [OF printable_effective_status [OF assms]] by blast
  obtain i where i: "to_string (js_coalesce (field run ''iterations'') (JStr ''n/a'')) = Some i"
    using to_string_printable [of "js_coalesce (field run ''iterations'') (JStr ''n/a'')"] assms
    by (auto simp: printable_js_coalesce printable_field)
  obtain a where a:
    "to_string (js_coalesce (opt_field (field run ''agent'') ''id'') (JStr ''unknown'')) = Some a"
    using to_string_printable
      [of "js_coalesce (opt_field (field run ''agent'') ''id'') (JStr ''unknown'')"] assms
    by (auto simp: printable_js_coalesce printable_field printable_opt_field)
  show ?thesis
    unfolding s i a by (simp add: log_tmpl_def tmpl_def)
qed

lemma console_exec: "console (final (exec ss p)) = console p @ fst (effects ss)"
  by (simp add: exec_effects console_apply_effects)

text \<open>
  C5. Absence never makes the renderer fail: a property that is missing reads as
  \<^verbatim>\<open>undefined\<close> and is defaulted. For every run value in which no timeline entry is
  itself \<^verbatim>\<open>null\<close> or \<^verbatim>\<open>undefined\<close> and no object carries an own property
  \<^verbatim>\<open>toString\<close> (whichever of \<^verbatim>\<open>status\<close>, \<^verbatim>\<open>ok\<close>, \<^verbatim>\<open>iterations\<close>,
  \<^verbatim>\<open>agent\<close>, \<^verbatim>\<open>timeline\<close>, \<^verbatim>\<open>completeHistory\<close> and of the fields of each
  entry are present), the renderer returns normally. With every field absent the output is
  the defaults: status \<^verbatim>\<open>unknown\<close>, iterations \<^verbatim>\<open>n/a\<close>, agent \<^verbatim>\<open>unknown\<close>, the
  empty-timeline marker; an entry with every field absent gives step \<^verbatim>\<open>?\<close> with action
  \<^verbatim>\<open>none\<close>.
\<close>

theorem render_never_raises:
  assumes "printable run" and "list_all (\<lambda>entry. \<not> nullish entry) (timeline_of run)"
  shows "(\<exists>p'. renderRunResult run p = Returned p') \<and>
     renderRunResult (JObj []) p =
       Returned (p\<lparr>console := console p @
          [(Stdout, ''[nerovaagent] status=unknown iterations=n/a agent=unknown''),
           (Stdout, ''[nerovaagent] timeline: <empty>''),
           (Stderr, ''[nerovaagent] run finished with status unknown. Inspect timeline for details.'')],
          exitCode := Some 1\<rparr>) \<and>
     render_entry (JObj []) = [Log Stdout '' step ?: action=none'']"
proof (intro conjI)
  show "\<exists>p'. renderRunResult run p = Returned p'"
    using assms by (intro render_returns) (simp_all add: list_all_iff)
  show "renderRunResult (JObj []) p =
       Returned (p\<lparr>console := console p @
          [(Stdout, ''[nerovaagent] status=unknown iterations=n/a agent=unknown''),
           (Stdout, ''[nerovaagent] timeline: <empty>''),
           (Stderr, ''[nerovaagent] run finished with status unknown. Inspect timeline for details.'')],
          exitCode := Some 1\<rparr>)"
    by (simp add: renderRunResult_def render_body_def effective_status_def timeline_of_def
        render_history_def js_or_def js_coalesce_def opt_field_def log_tmpl_def tmpl_def)
  show "render_entry (JObj []) = [Log Stdout '' step ?: action=none'']"
    by (simp add: render_entry_def render_target_def render_result_def render_assistant_def
        js_or_def js_coalesce_def opt_field_def log_tmpl_def tmpl_def)
qed

text \<open>
  A run with no status, and two entries: one with no field at all, one whose decision
  target, clicked element and assistant are objects with no field.
\<close>

theorem render_never_raises_witness:
  "printable sparse_run \<and>
   list_all (\<lambda>entry. \<not> nullish entry) (timeline_of sparse_run) \<and>
   renderRunResult sparse_run initial_proc =
     Returned
       \<lparr>console =
          [(Stdout, ''[nerovaagent] status=unknown iterations=n/a agent=unknown''),
           (Stdout, '' step ?: action=none''),
           (Stdout, '' step ?: action=none''),
           (Stdout, ''   clicked: candidate (state=n/a)''),
           (Stdout, ''   assistant: undefined''),
           (Stderr, ''[nerovaagent] run finished with status unknown. Inspect timeline for details.'')],
        exitCode = Some 1, requests = [], probes = 0\<rparr>"
proof -
  have h1: "printable sparse_run" by code_simp
  have h2: "list_all (\<lambda>entry. \<not> nullish entry) (timeline_of sparse_run)" by code_simp
  have ev: "renderRunResult sparse_run initial_proc =
     Returned
       \<lparr>console =
          [(Stdout, ''[nerovaagent] status=unknown iterations=n/a agent=unknown''),
           (Stdout, '' step ?: action=none''),
           (Stdout, '' step ?: action=none''),
           (Stdout, ''   clicked: candidate (state=n/a)''),
           (Stdout, ''   assistant: undefined''),
           (Stderr, ''[nerovaagent] run finished with status unknown. Inspect timeline for details.'')],
        exitCode = Some 1, requests = [], probes = 0\<rparr>"
    by code_simp
  show ?thesis
    using render_never_raises [OF h1 h2, of initial_proc] h1 h2 ev by simp
qed

text \<open>
  C8. For every run object whose timeline is empty or absent (or not an array), and in
  which no object has an own property \<^verbatim>\<open>toString\<close> (so that the summary line
  converts), the renderer writes the empty-timeline marker as its second line, right after
  the summary line. On \<^verbatim>\<open>{status: "failed", timeline: []}\<close> it writes the summary,
  the marker and the diagnostic, and sets the exit code to 1.
\<close>

theorem render_empty_timeline:
  assumes "is_structured run" and "printable run" and "timeline_of run = []"
  shows "(\<exists>p' summary rest. renderRunResult run p = Returned p' \<and>
       console p' =
         console p @ (Stdout, summary) # (Stdout, ''[nerovaagent] timeline: <empty>'') # rest) \<and>
     renderRunResult (JObj [(''status'', JStr ''failed''), (''timeline'', JArr [])]) p =
       Returned (p\<lparr>console := console p @
          [(Stdout, ''[nerovaagent] status=failed iterations=n/a agent=unknown''),
           (Stdout, ''[nerovaagent] timeline: <empty>''),
           (Stderr, ''[nerovaagent] run finished with status failed. Inspect timeline for details.'')],
          exitCode := Some 1\<rparr>)"
proof
  obtain p' where r: "renderRunResult run p = Returned p'"
    using render_returns [of run p] assms by auto
  obtain s tail where l: "log_tmpl Stdout
       [Some ''[nerovaagent] status='', to_string (effective_status run),
        Some '' iterations='',
        to_string (js_coalesce (field run ''iterations'') (JStr ''n/a'')),
        Some '' agent='',
        to_string (js_coalesce (opt_field (field run ''agent'') ''id'') (JStr ''unknown''))]
     = Log Stdout (''[nerovaagent] status='' @ s @ tail)"
    using summary_Log [OF assms(2)] by blast
  have "console (final (renderRunResult run p)) = console p @ fst (effects (render_body run))"
    by (simp add: renderRunResult_def console_exec)
  then have "\<exists>rest. console p' = console p @
      (Stdout, ''[nerovaagent] status='' @ s @ tail) #
      (Stdout, ''[nerovaagent] timeline: <empty>'') # rest"
    unfolding r render_body_split [OF assms(1)] l assms(3)
    by (simp split: prod.splits)
  then show "\<exists>p' summary rest. renderRunResult run p = Returned p' \<and>
       console p' =
         console p @ (Stdout, summary) # (Stdout, ''[nerovaagent] timeline: <empty>'') # rest"
    using r by blast
next
  show "renderRunResult (JObj [(''status'', JStr ''failed''), (''timeline'', JArr [])]) p =
       Returned (p\<lparr>console := console p @
          [(Stdout, ''[nerovaagent] status=failed iterations=n/a agent=unknown''),
           (Stdout, ''[nerovaagent] timeline: <empty>''),
           (Stderr, ''[nerovaagent] run finished with status failed. Inspect timeline for details.'')],
          exitCode := Some 1\<rparr>)"
    by (simp add: renderRunResult_def render_body_def effective_status_def timeline_of_def
        render_history_def js_or_def js_coalesce_def opt_field_def log_tmpl_def tmpl_def)
qed

text \<open>A completed run with no timeline property at all.\<close>

theorem render_empty_timeline_witness:
  "is_structured (JObj [(''ok'', JBool True), (''iterations'', JNum 0)]) \<and>
   printable (JObj [(''ok'', JBool True), (''iterations'', JNum 0)]) \<and>
   timeline_of (JObj [(''ok'', JBool True), (''iterations'', JNum 0)]) = [] \<and>
   (\<exists>p' summary rest.
      renderRunResult (JObj [(''ok'', JBool True), (''iterations'', JNum 0)]) initial_proc =
        Returned p' \<and>
      console p' =
        console initial_proc @
          (Stdout, summary) # (Stdout, ''[nerovaagent] timeline: <empty>'') # rest) \<and>
   renderRunResult (JObj [(''ok'', JBool True), (''iterations'', JNum 0)]) initial_proc =
     Returned
       \<lparr>console =
          [(Stdout, ''[nerovaagent] status=completed iterations=0 agent=unknown''),
           (Stdout, ''[nerovaagent] timeline: <empty>'')],
        exitCode = None, requests = [], probes = 0\<rparr>"
proof -
  have h1: "is_structured (JObj [(''ok'', JBool True), (''iterations'', JNum 0)])" by simp
  have h2: "printable (JObj [(''ok'', JBool True), (''iterations'', JNum 0)])" by simp
  have h3: "timeline_of (JObj [(''ok'', JBool True), (''iterations'', JNum 0)]) = []"
    by (simp add: timeline_of_def)
  have ev: "renderRunResult (JObj [(''ok'', JBool True), (''iterations'', JNum 0)]) initial_proc =
     Returned
       \<lparr>console =
          [(Stdout, ''[nerovaagent] status=completed iterations=0 agent=unknown''),
           (Stdout, ''[nerovaagent] timeline: <empty>'')],
        exitCode = None, requests = [], probes = 0\<rparr>"
    by code_simp
  show ?thesis
    using conjunct1 [OF render_empty_timeline [OF h1 h2 h3, of initial_proc]] h1 h2 h3 ev
    by (intro conjI) assumption+
qed

lemma concat_render_entry_no_exit: "list_all no_exit (concat (map render_entry es))"
  using render_entry_no_exit by (induction es) auto

text \<open>
  C3, as the code has it. For every run object the renderer consumes (with no
  \<^verbatim>\<open>null\<close> timeline entry and no own \<^verbatim>\<open>toString\<close> property, so that rendering
  returns), the effective status is the \<^verbatim>\<open>status\<close> field if that field is truthy
  (present and not the empty string), else \<^verbatim>\<open>"completed"\<close> if \<^verbatim>\<open>ok\<close> is truthy,
  else \<^verbatim>\<open>"unknown"\<close>. The summary line shows it. The exit code is left as it was if the
  effective status is the string \<^verbatim>\<open>"completed"\<close>; otherwise it is set to 1 and the last
  line written is the diagnostic, on the error stream, pointing at the timeline.
\<close>

theorem effective_status_decides_exit:
  assumes "is_structured run" and "printable run"
    and "list_all (\<lambda>entry. \<not> nullish entry) (timeline_of run)"
  shows "effective_status run =
      (if truthy (field run ''status'') then field run ''status''
       else if truthy (field run ''ok'') then JStr ''completed'' else JStr ''unknown'') \<and>
    (\<exists>p' s tail rest.
       renderRunResult run p = Returned p' \<and>
       to_string (effective_status run) = Some s \<and>
       emitted p (Returned p') = (Stdout, ''[nerovaagent] status='' @ s @ tail) # rest \<and>
       (effective_status run = JStr ''completed'' \<longrightarrow> exitCode p' = exitCode p) \<and>
       (effective_status run \<noteq> JStr ''completed'' \<longrightarrow>
          exitCode p' = Some 1 \<and>
          last (console p') =
            (Stderr, ''[nerovaagent] run finished with status '' @ s @
                     ''. Inspect timeline for details.'')))"
proof
  show "effective_status run =
      (if truthy (field run ''status'') then field run ''status''
       else if truthy (field run ''ok'') then JStr ''completed'' else JStr ''unknown'')"
    by (simp add: effective_status_def js_or_def)
next
  let ?pre = "(if timeline_of run = [] then [Log Stdout ''[nerovaagent] timeline: <empty>''] else [])
     @ concat (map render_entry (timeline_of run)) @ render_history run"
  have a3: "\<forall>entry \<in> set (timeline_of run). \<not> nullish entry"
    using assms(3) by (simp add: list_all_iff)
  obtain p' where r: "renderRunResult run p = Returned p'"
    using render_returns [OF assms(2) a3] by blast
  obtain s tail where s: "to_string (effective_status run) = Some s"
    and l: "log_tmpl Stdout
       [Some ''[nerovaagent] status='', to_string (effective_status run),
        Some '' iterations='',
        to_string (js_coalesce (field run ''iterations'') (JStr ''n/a'')),
        Some '' agent='',
        to_string (js_coalesce (opt_field (field run ''agent'') ''id'') (JStr ''unknown''))]
     = Log Stdout (''[nerovaagent] status='' @ s @ tail)"
    using summary_Log [OF assms(2)] by blast
  have d: "log_tmpl Stderr
            [Some ''[nerovaagent] run finished with status '', to_string (effective_status run),
             Some ''. Inspect timeline for details.'']
     = Log Stderr (''[nerovaagent] run finished with status '' @ s @
                     ''. Inspect timeline for details.'')"
    by (simp add: s log_tmpl_def tmpl_def)
  have q: "list_all quiet ?pre"
    using render_body_quiet [OF assms(2) a3]
    unfolding render_body_split [OF assms(1)] by simp
  have n: "list_all no_exit ?pre"
    by (simp add: concat_render_entry_no_exit render_history_no_exit)
  have e: "effects ?pre = (fst (effects ?pre), None, None)"
    using effects_quiet [OF q] effects_no_exit [OF n] by (cases "effects ?pre") simp
  have c: "console p' = console p @ fst (effects (render_body run))"
    using console_exec [of "render_body run" p] r by (simp add: renderRunResult_def)
  have x: "exitCode p' =
      (case fst (snd (effects (render_body run))) of None \<Rightarrow> exitCode p | Some n \<Rightarrow> Some n)"
    using exitCode_exec [of "render_body run" p] r by (simp add: renderRunResult_def)
  have b: "effects (render_body run) =
      ((Stdout, ''[nerovaagent] status='' @ s @ tail) # fst (effects ?pre) @
         (if effective_status run \<noteq> JStr ''completed'' then
            [(Stderr, ''[nerovaagent] run finished with status '' @ s @
                     ''. Inspect timeline for details.'')] else []),
       (if effective_status run \<noteq> JStr ''completed'' then Some 1 else None), None)"
    unfolding render_body_split [OF assms(1)] l d
    using effects_append [of ?pre, OF effects_quiet [OF q]] effects_no_exit [OF n]
    by simp
  show "\<exists>p' s tail rest.
       renderRunResult run p = Returned p' \<and>
       to_string (effective_status run) = Some s \<and>
       emitted p (Returned p') = (Stdout, ''[nerovaagent] status='' @ s @ tail) # rest \<and>
       (effective_status run = JStr ''completed'' \<longrightarrow> exitCode p' = exitCode p) \<and>
       (effective_status run \<noteq> JStr ''completed'' \<longrightarrow>
          exitCode p' = Some 1 \<and>
          last (console p') =
            (Stderr, ''[nerovaagent] run finished with status '' @ s @
                     ''. Inspect timeline for details.''))"
    using r s c x by (intro exI [of _ p'] exI [of _ s] exI [of _ tail]) (auto simp: b emitted_def)
qed

text \<open>A failed run: the status field wins over \<^verbatim>\<open>ok\<close>.\<close>

theorem effective_status_decides_exit_witness:
  "is_structured (JObj [(''status'', JStr ''failed''), (''ok'', JBool True)]) \<and>
   printable (JObj [(''status'', JStr ''failed''), (''ok'', JBool True)]) \<and>
   list_all (\<lambda>entry. \<not> nullish entry)
     (timeline_of (JObj [(''status'', JStr ''failed''), (''ok'', JBool True)])) \<and>
   effective_status (JObj [(''status'', JStr ''failed''), (''ok'', JBool True)]) =
     JStr ''failed'' \<and>
   (\<exists>p'. renderRunResult (JObj [(''status'', JStr ''failed''), (''ok'', JBool True)])
            initial_proc = Returned p' \<and>
         exitCode p' = Some 1 \<and>
         last (console p') =
           (Stderr, ''[nerovaagent] run finished with status failed. Inspect timeline for details.''))"
proof -
  let ?run = "JObj [(''status'', JStr ''failed''), (''ok'', JBool True)]"
  have h1: "is_structured ?run" by simp
  have h2: "printable ?run" by simp
  have h3: "list_all (\<lambda>entry. \<not> nullish entry) (timeline_of ?run)"
    by (simp add: timeline_of_def)
  have s: "effective_status ?run = JStr ''failed''"
    by (simp add: effective_status_def js_or_def)
  show ?thesis
    using effective_status_decides_exit [OF h1 h2 h3, of initial_proc] h1 h2 h3
    unfolding s by auto
qed

text \<open>
  C3 as stated fails on the code: in \<^verbatim>\<open>{status: "", ok: true}\<close> the status field is
  present, yet the effective status is not its value but \<^verbatim>\<open>"completed"\<close>, and the exit
  code stays unset although the status field is not \<^verbatim>\<open>"completed"\<close>.
\<close>

theorem empty_status_counterexample:
  "field (JObj [(''status'', JStr []), (''ok'', JBool True)]) ''status'' = JStr [] \<and>
   effective_status (JObj [(''status'', JStr []), (''ok'', JBool True)]) = JStr ''completed'' \<and>
   renderRunResult (JObj [(''status'', JStr []), (''ok'', JBool True)]) initial_proc =
     Returned
       \<lparr>console =
          [(Stdout, ''[nerovaagent] status=completed iterations=n/a agent=unknown''),
           (Stdout, ''[nerovaagent] timeline: <empty>'')],
        exitCode = None, requests = [], probes = 0\<rparr>"
  by code_simp

subsection \<open>Target and result lines of a timeline entry\<close>














subsection \<open>Prompt resolution of the start flow\<close>

lemma resolve_prompt_chosen:
  assumes "truthy_str (prompt options) \<or> prompt_file_text w options = Inr b"
  shows "resolve_prompt w options =
     (if trim (chosen_prompt options b) = [] then Inl missing_prompt_message
      else Inr (chosen_prompt options b))"
proof (cases "truthy_str (prompt options)")
  case True
  then obtain a where a: "prompt options = Some a" "a \<noteq> []"
    by (cases "prompt options") auto
  then show ?thesis
    by (simp add: resolve_prompt_def text_of_def chosen_prompt_def Let_def)
next
  case False
  then have b: "prompt_file_text w options = Inr b" and t: "text_of (prompt options) = []"
    using assms by (cases "prompt options"; simp add: text_of_def)+
  have tr: "trim [] = []" by (simp add: trim_def)
  show ?thesis
  proof (cases "truthy_str (promptFile options)")
    case True
    then obtain f where f: "promptFile options = Some f" "f \<noteq> []"
      by (cases "promptFile options") auto
    then have "files w f = Inr b"
      using b by (simp add: prompt_file_text_def)
    then show ?thesis
      using False f t tr
      by (cases "positional options")
        (auto simp: resolve_prompt_def loadFileSafe_def chosen_prompt_def Let_def)
  next
    case nf: False
    then have "b = []"
      using b by (cases "promptFile options") (auto simp: prompt_file_text_def)
    then show ?thesis
      using False nf t tr
      by (cases "positional options"; cases "prompt options")
        (auto simp: resolve_prompt_def chosen_prompt_def Let_def)
  qed
qed

lemma requests_exec: "requests (final (exec ss p)) = requests p \<and> probes (final (exec ss p)) = probes p"
  by (cases "effects ss") (auto simp: exec_effects apply_effects_def Let_def split: option.splits)

lemma render_outcome:
  "(\<exists>q. renderRunResult run p = Returned q \<and> requests q = requests p \<and> probes q = probes p) \<or>
   (\<exists>e q. renderRunResult run p = Thrown e q \<and> requests q = requests p \<and> probes q = probes p)"
proof (cases "renderRunResult run p")
  case (Exited n q)
  then show ?thesis
    by (cases "effects (render_body run)")
      (auto simp: renderRunResult_def exec_effects apply_effects_def Let_def split: option.splits)
qed (use requests_exec [of "render_body run" p] in \<open>auto simp: renderRunResult_def\<close>)

lemma handleStart_no_prompt:
  "resolve_prompt w options = Inl line \<Longrightarrow>
     handleStart w options p = Exited 1 (p\<lparr>console := console p @ [(Stderr, line)]\<rparr>)"
  by (simp add: handleStart_def die_def)

lemma handleStart_stopped:
  assumes "resolve_prompt w options = Inr text"
    and "\<not> daemon_running w \<or> (\<exists>line. resolve_context w options = Inl line)"
  shows "\<exists>p'. handleStart w options p = Exited 1 p' \<and> requests p' = requests p"
  using assms
  by (cases "resolve_context w options")
    (auto simp: handleStart_def die_def requireAgentDaemon_def Let_def)

lemma handleStart_sent:
  assumes "resolve_prompt w options = Inr text" and "resolve_context w options = Inr notes"
    and "daemon_running w"
  shows "requests (final (handleStart w options p)) =
           requests p @ [start_request w options text notes]"
proof -
  let ?p1 = "p\<lparr>probes := probes p + 1\<rparr>"
  let ?req = "start_request w options text notes"
  let ?p2 = "?p1\<lparr>requests := requests ?p1 @ [?req]\<rparr>"
  show ?thesis
  proof (cases "respond w ?req")
    case (Inl err)
    then show ?thesis
      using assms
      by (simp add: handleStart_def requireAgentDaemon_def callRuntime_def Let_def
          report_failure_def start_request_def)
  next
    case (Inr result)
    have h: "handleStart w options p =
        (case renderRunResult result ?p2 of
           Thrown e p3 \<Rightarrow> die (''Failed to start agent: '' @ error_message e) p3
         | finished \<Rightarrow> finished)"
      using assms Inr
      by (simp add: handleStart_def requireAgentDaemon_def callRuntime_def Let_def
          start_request_def)
    show ?thesis
      using render_outcome [of result ?p2]
      by (auto simp: h die_def)
  qed
qed

text \<open>
  C2, as the code has it. The \<^verbatim>\<open>start\<close> flow settles on the first non-empty one of
  the \<^verbatim>\<open>--prompt\<close> value, the contents of the \<^verbatim>\<open>--prompt-file\<close> file and the
  positional tokens joined by a single space; an empty source falls through to the next, a
  source of white space only does not. It fails with the missing-prompt error (exit 1, no
  request issued) exactly when the source it settled on is empty after trimming; otherwise
  that source is the resolved prompt, and the request sent once the context is resolved
  and the daemon runs carries it, trimmed. A prompt file that is consulted and cannot be
  read ends the flow with the read error, exit 1.
\<close>

theorem start_prompt_resolution:
  "(truthy_str (prompt options) \<or> prompt_file_text w options = Inr b \<longrightarrow>
      (trim (chosen_prompt options b) = [] \<longrightarrow>
         resolve_prompt w options = Inl missing_prompt_message \<and>
         handleStart w options p =
           Exited 1 (p\<lparr>console := console p @ [(Stderr, missing_prompt_message)]\<rparr>)) \<and>
      (trim (chosen_prompt options b) \<noteq> [] \<longrightarrow>
         resolve_prompt w options = Inr (chosen_prompt options b) \<and>
         (\<forall>ctx. resolve_context w options = Inr ctx \<and> daemon_running w \<longrightarrow>
            requests (final (handleStart w options p)) =
              requests p @ [start_request w options (chosen_prompt options b) ctx] \<and>
            field (body (start_request w options (chosen_prompt options b) ctx)) ''prompt'' =
              JStr (trim (chosen_prompt options b))))) \<and>
   (\<not> truthy_str (prompt options) \<and> promptFile options = Some f \<and> f \<noteq> [] \<and>
    files w f = Inl msg \<longrightarrow>
      handleStart w options p =
        Exited 1 (p\<lparr>console := console p @
          [(Stderr, ''Failed to read '' @ f @ '': '' @ msg)]\<rparr>))"
proof (intro conjI impI allI)
  assume a: "truthy_str (prompt options) \<or> prompt_file_text w options = Inr b"
    and e: "trim (chosen_prompt options b) = []"
  show "resolve_prompt w options = Inl missing_prompt_message"
    using resolve_prompt_chosen [OF a] e by simp
  then show "handleStart w options p =
      Exited 1 (p\<lparr>console := console p @ [(Stderr, missing_prompt_message)]\<rparr>)"
    by (rule handleStart_no_prompt)
next
  assume a: "truthy_str (prompt options) \<or> prompt_file_text w options = Inr b"
    and e: "trim (chosen_prompt options b) \<noteq> []"
  show "resolve_prompt w options = Inr (chosen_prompt options b)"
    using resolve_prompt_chosen [OF a] e by simp
next
  fix ctx
  assume a: "truthy_str (prompt options) \<or> prompt_file_text w options = Inr b"
    and e: "trim (chosen_prompt options b) \<noteq> []"
    and c: "resolve_context w options = Inr ctx \<and> daemon_running w"
  have r: "resolve_prompt w options = Inr (chosen_prompt options b)"
    using resolve_prompt_chosen [OF a] e by simp
  show "requests (final (handleStart w options p)) =
      requests p @ [start_request w options (chosen_prompt options b) ctx]"
    using handleStart_sent [OF r] c by blast
next
  fix ctx
  show "field (body (start_request w options (chosen_prompt options b) ctx)) ''prompt'' =
      JStr (trim (chosen_prompt options b))"
    by (simp add: start_request_def run_payload_def)
next
  assume "\<not> truthy_str (prompt options) \<and> promptFile options = Some f \<and> f \<noteq> [] \<and>
    files w f = Inl msg"
  then have "resolve_prompt w options = Inl (''Failed to read '' @ f @ '': '' @ msg)"
    by (simp add: resolve_prompt_def loadFileSafe_def)
  then show "handleStart w options p =
      Exited 1 (p\<lparr>console := console p @
        [(Stderr, ''Failed to read '' @ f @ '': '' @ msg)]\<rparr>)"
    by (rule handleStart_no_prompt)
qed

text \<open>
  The two examples of the specification, with the file \<^verbatim>\<open>p.txt\<close> holding \<^verbatim>\<open>b\<close>,
  an invocation with no prompt at all, and one whose prompt file \<^verbatim>\<open>q.txt\<close> cannot be
  read.
\<close>

theorem start_prompt_resolution_witness:
  "resolve_prompt (example_world True)
      (parseArgs [''--prompt'', ''a'', ''--prompt-file'', ''p.txt'']) = Inr ''a'' \<and>
   requests (final (handleStart (example_world True)
      (parseArgs [''--prompt'', ''a'', ''--prompt-file'', ''p.txt'']) initial_proc)) =
     [\<lparr>pathname = ''/run/start'', http_method = ''POST'',
       body = JObj [(''prompt'', JStr ''a''), (''contextNotes'', JStr []),
                    (''criticKey'', JNull), (''assistantKey'', JNull),
                    (''assistantId'', JNull)]\<rparr>] \<and>
   resolve_prompt (example_world True) (parseArgs [''fix'', ''the'', ''bug'']) =
     Inr ''fix the bug'' \<and>
   requests (final (handleStart (example_world True)
      (parseArgs [''fix'', ''the'', ''bug'']) initial_proc)) =
     [\<lparr>pathname = ''/run/start'', http_method = ''POST'',
       body = JObj [(''prompt'', JStr ''fix the bug''), (''contextNotes'', JStr []),
                    (''criticKey'', JNull), (''assistantKey'', JNull),
                    (''assistantId'', JNull)]\<rparr>] \<and>
   handleStart (example_world True) (parseArgs []) initial_proc =
     Exited 1 \<lparr>console = [(Stderr, missing_prompt_message)], exitCode = None,
               requests = [], probes = 0\<rparr> \<and>
   handleStart (example_world True) (parseArgs [''--prompt-file'', ''q.txt'']) initial_proc =
     Exited 1 \<lparr>console = [(Stderr,
                 ''Failed to read q.txt: ENOENT: no such file or directory, open q.txt'')],
               exitCode = None, requests = [], probes = 0\<rparr>"
proof -
  let ?w = "example_world True"
  let ?flag = "parseArgs [''--prompt'', ''a'', ''--prompt-file'', ''p.txt'']"
  let ?pos = "parseArgs [''fix'', ''the'', ''bug'']"
  let ?none = "parseArgs []"
  let ?bad = "parseArgs [''--prompt-file'', ''q.txt'']"
  have f1: "truthy_str (prompt ?flag) \<or> prompt_file_text ?w ?flag = Inr ''b''" by code_simp
  have f2: "trim (chosen_prompt ?flag ''b'') \<noteq> []" by code_simp
  have f3: "resolve_context ?w ?flag = Inr [] \<and> daemon_running ?w" by code_simp
  have f4: "chosen_prompt ?flag ''b'' = ''a''" by code_simp
  have f5: "requests initial_proc @ [start_request ?w ?flag ''a'' []] =
     [\<lparr>pathname = ''/run/start'', http_method = ''POST'',
       body = JObj [(''prompt'', JStr ''a''), (''contextNotes'', JStr []),
                    (''criticKey'', JNull), (''assistantKey'', JNull),
                    (''assistantId'', JNull)]\<rparr>]"
    by code_simp
  have g1: "truthy_str (prompt ?pos) \<or> prompt_file_text ?w ?pos = Inr []" by code_simp
  have g2: "trim (chosen_prompt ?pos []) \<noteq> []" by code_simp
  have g3: "resolve_context ?w ?pos = Inr [] \<and> daemon_running ?w" by code_simp
  have g4: "chosen_prompt ?pos [] = ''fix the bug''" by code_simp
  have g5: "requests initial_proc @ [start_request ?w ?pos ''fix the bug'' []] =
     [\<lparr>pathname = ''/run/start'', http_method = ''POST'',
       body = JObj [(''prompt'', JStr ''fix the bug''), (''contextNotes'', JStr []),
                    (''criticKey'', JNull), (''assistantKey'', JNull),
                    (''assistantId'', JNull)]\<rparr>]"
    by code_simp
  have n1: "truthy_str (prompt ?none) \<or> prompt_file_text ?w ?none = Inr []" by code_simp
  have n2: "trim (chosen_prompt ?none []) = []" by code_simp
  have n3: "initial_proc\<lparr>console := console initial_proc @ [(Stderr, missing_prompt_message)]\<rparr>
      = \<lparr>console = [(Stderr, missing_prompt_message)], exitCode = None,
               requests = [], probes = 0\<rparr>"
    by (simp add: initial_proc_def)
  have b1: "\<not> truthy_str (prompt ?bad) \<and> promptFile ?bad = Some ''q.txt'' \<and> ''q.txt'' \<noteq> [] \<and>
      files ?w ''q.txt'' = Inl ''ENOENT: no such file or directory, open q.txt''"
    by code_simp
  have b2: "initial_proc\<lparr>console := console initial_proc @
        [(Stderr, ''Failed to read '' @ ''q.txt'' @ '': '' @
            ''ENOENT: no such file or directory, open q.txt'')]\<rparr>
      = \<lparr>console = [(Stderr,
                 ''Failed to read q.txt: ENOENT: no such file or directory, open q.txt'')],
               exitCode = None, requests = [], probes = 0\<rparr>"
    by (simp add: initial_proc_def)
  note t1 = conjunct1 [OF start_prompt_resolution, rule_format, OF f1,
      THEN conjunct2, rule_format, OF f2]
  note t2 = conjunct1 [OF start_prompt_resolution, rule_format, OF g1,
      THEN conjunct2, rule_format, OF g2]
  note t3 = conjunct1 [OF start_prompt_resolution, rule_format, OF n1,
      THEN conjunct1, rule_format, OF n2]
  note t4 = conjunct2 [OF start_prompt_resolution, rule_format, OF b1]
  show ?thesis
    using conjunct1 [OF t1] conjunct2 [OF t1, rule_format, OF f3, of initial_proc]
      conjunct1 [OF t2] conjunct2 [OF t2, rule_format, OF g3, of initial_proc]
      conjunct2 [OF t3, of initial_proc] t4 [of initial_proc]
    unfolding f4 g4 f5 g5 n3 b2
    by (intro conjI) simp_all
qed

text \<open>
  C2 as stated fails on the code: with \<^verbatim>\<open>--prompt " "\<close> and the positional token
  \<^verbatim>\<open>fix\<close>, the positional source yields the non-empty trimmed string \<^verbatim>\<open>fix\<close>, yet
  the flow fails with the missing-prompt error.
\<close>

theorem blank_prompt_counterexample:
  "prompt (parseArgs [''--prompt'', '' '', ''fix'']) = Some '' '' \<and>
   trim (join '' '' (positional (parseArgs [''--prompt'', '' '', ''fix'']))) = ''fix'' \<and>
   handleStart (example_world True) (parseArgs [''--prompt'', '' '', ''fix'']) initial_proc =
     Exited 1 \<lparr>console = [(Stderr, missing_prompt_message)], exitCode = None,
               requests = [], probes = 0\<rparr>"
  by code_simp

subsection \<open>The daemon gate\<close>

lemma handleStart_exits_when_down:
  assumes "\<not> daemon_running w"
  shows "\<exists>p'. handleStart w options p = Exited 1 p' \<and> requests p' = requests p \<and>
     (probes p' \<noteq> probes p \<longrightarrow>
        p' = p\<lparr>probes := probes p + 1, console := console p @ [(Stderr, daemon_message)]\<rparr>)"
  using assms
  by (cases "resolve_prompt w options"; cases "resolve_context w options")
    (auto simp: handleStart_def die_def requireAgentDaemon_def Let_def)

text \<open>
  C1. When the daemon probe reports that no daemon runs, \<^verbatim>\<open>playwright-launch\<close> and
  \<^verbatim>\<open>start\<close> end the process with exit code 1 and issue no request; the line written
  last, on the error stream, is the message that names the activation command
  \<^verbatim>\<open>nerovaagent\<close>. A \<^verbatim>\<open>start\<close> that never reaches the probe (no prompt, or an
  unreadable file) also exits with code 1 without a request.
\<close>

theorem daemon_gate:
  assumes "\<not> daemon_running w"
  shows "handlePlaywrightLaunch w p =
       Exited 1 (p\<lparr>probes := probes p + 1,
                   console := console p @ [(Stderr, daemon_message)]\<rparr>) \<and>
     (\<exists>p'. handleStart w options p = Exited 1 p' \<and> requests p' = requests p \<and>
        (probes p' \<noteq> probes p \<longrightarrow>
           p' = p\<lparr>probes := probes p + 1,
                  console := console p @ [(Stderr, daemon_message)]\<rparr>))"
proof
  show "handlePlaywrightLaunch w p =
       Exited 1 (p\<lparr>probes := probes p + 1,
                   console := console p @ [(Stderr, daemon_message)]\<rparr>)"
    using assms by (simp add: handlePlaywrightLaunch_def requireAgentDaemon_def die_def Let_def)
  show "\<exists>p'. handleStart w options p = Exited 1 p' \<and> requests p' = requests p \<and>
        (probes p' \<noteq> probes p \<longrightarrow>
           p' = p\<lparr>probes := probes p + 1,
                  console := console p @ [(Stderr, daemon_message)]\<rparr>)"
    by (rule handleStart_exits_when_down [OF assms])
qed

text \<open>Both commands with a prompt given and no daemon running.\<close>

theorem daemon_gate_witness:
  "\<not> daemon_running (example_world False) \<and>
   handlePlaywrightLaunch (example_world False) initial_proc =
     Exited 1 \<lparr>console = [(Stderr, daemon_message)], exitCode = None,
               requests = [], probes = 1\<rparr> \<and>
   handleStart (example_world False) (parseArgs [''fix'', ''the'', ''bug'']) initial_proc =
     Exited 1 \<lparr>console = [(Stderr, daemon_message)], exitCode = None,
               requests = [], probes = 1\<rparr>"
proof -
  have h: "\<not> daemon_running (example_world False)" by code_simp
  have e: "handleStart (example_world False) (parseArgs [''fix'', ''the'', ''bug''])
      initial_proc =
     Exited 1 \<lparr>console = [(Stderr, daemon_message)], exitCode = None,
               requests = [], probes = 1\<rparr>"
    by code_simp
  have i: "initial_proc\<lparr>probes := probes initial_proc + 1,
        console := console initial_proc @ [(Stderr, daemon_message)]\<rparr> =
      \<lparr>console = [(Stderr, daemon_message)], exitCode = None, requests = [], probes = 1\<rparr>"
    by (simp add: initial_proc_def)
  show ?thesis
    using conjunct1 [OF daemon_gate [OF h, of initial_proc]] h e
    unfolding i by simp
qed

end
